theory Spec2Isabelle
  imports Main "HOL-Library.Word" "HOL-Library.Signed_Division"
begin

section \<open>Data model of main/cdr.c\<close>

text \<open>
  Pointers that the C code tests against NULL are options. A function that dereferences
  a pointer returns an option as well: \<open>None\<close> stands for the dereference of a NULL
  pointer. Allocation failure is not modelled (every \<open>ao2_alloc\<close> succeeds), and
  \<open>ast_assert\<close>, \<open>CDR_DEBUG\<close>, \<open>ast_debug\<close> and \<open>ast_log\<close> are no-ops.
\<close>

record timeval =
  tv_sec :: int
  tv_usec :: int

definition tv_zero :: timeval where
  \<comment> \<open>a \<open>struct timeval\<close> of a zeroed allocation (or after \<open>memset\<close>)\<close>
  "tv_zero = \<lparr>tv_sec = 0, tv_usec = 0\<rparr>"

text \<open>
  Modelled from the spec: \<open>ast_tvzero\<close> of asterisk/time.h, which is not among the
  sources. A timestamp is absent when it is zero.
\<close>

definition ast_tvzero :: "timeval \<Rightarrow> bool" where
  "ast_tvzero t = (tv_sec t = 0 \<and> tv_usec t = 0)"

text \<open>
  Modelled from the spec: \<open>ast_tvdiff_ms\<close> of asterisk/time.h, which is not among the
  sources. It is the difference \<open>e - s\<close> of two timestamps in whole milliseconds.
\<close>

definition ast_tvdiff_ms :: "timeval \<Rightarrow> timeval \<Rightarrow> int" where
  "ast_tvdiff_ms e s = ((tv_sec e - tv_sec s) * 1000000 + (tv_usec e - tv_usec s)) div 1000"

datatype ast_cdr_disposition =
  AST_CDR_NULL | AST_CDR_NOANSWER | AST_CDR_FAILED | AST_CDR_BUSY | AST_CDR_ANSWERED
  | AST_CDR_CONGESTION

text \<open>Flag words are sets of flag names; \<open>ast_test_flag\<close> is membership.\<close>

datatype ast_cdr_options =
  AST_CDR_FLAG_KEEP_VARS | AST_CDR_FLAG_DISABLE | AST_CDR_FLAG_PARTY_A
  | AST_CDR_FLAG_FINALIZE | AST_CDR_FLAG_SET_ANSWER | AST_CDR_FLAG_RESET

datatype ast_channel_flag = AST_FLAG_OUTGOING | AST_FLAG_ORIGINATED | AST_FLAG_ZOMBIE

datatype cdr_setting =
  CDR_ENABLED | CDR_BATCHMODE | CDR_UNANSWERED | CDR_CONGESTION | CDR_END_BEFORE_H_EXTEN
  | CDR_INITIATED_SECONDS | CDR_DEBUG

definition ast_test_flag :: "'f set \<Rightarrow> 'f \<Rightarrow> bool" where
  "ast_test_flag fs f = (f \<in> fs)"

text \<open>The channel state: the code only ever compares it with \<open>AST_STATE_UP\<close>.\<close>

datatype ast_channel_state = AST_STATE_UP | AST_STATE_NOT_UP

record ast_channel_snapshot =
  chan_name :: string
  chan_uniqueid :: string
  chan_linkedid :: string
  chan_accountcode :: string
  chan_caller_name :: string
  chan_caller_number :: string
  chan_caller_dnid :: string
  chan_caller_subaddr :: string
  chan_dialed_subaddr :: string
  chan_exten :: string
  chan_context :: string
  chan_priority :: int
  chan_appl :: string
  chan_data :: string
  chan_state :: ast_channel_state
  chan_amaflags :: int
  chan_hangupcause :: int
  chan_creationtime :: timeval
  chan_flags :: "ast_channel_flag set"

text \<open>
  A variable list (\<open>struct varshead\<close>) is the list of its (name, value) entries, head
  first. \<open>ast_var_name\<close> and \<open>ast_var_value\<close> are the two projections.
\<close>

type_synonym ast_var_t = "string \<times> string"
type_synonym varshead = "ast_var_t list"

record cdr_object_snapshot =
  snapshot :: "ast_channel_snapshot option"
  userfield :: string
  flags :: "ast_cdr_options set"
  variables :: varshead

text \<open>The six virtual tables; \<open>fn_table\<close> of a record points to one of them.\<close>

datatype cdr_object_fn_table =
  single_state_fn_table | dial_state_fn_table | dialed_pending_state_fn_table
  | bridge_state_fn_table | bridged_pending_state_fn_table | finalized_state_fn_table

text \<open>
  A chain is the list of its records in \<open>next\<close> order; \<open>cdr_last\<close> is the \<open>last\<close>
  pointer, the position in the chain of the record it points to.
\<close>

record cdr_object =
  party_a :: cdr_object_snapshot
  party_b :: cdr_object_snapshot
  fn_table :: cdr_object_fn_table
  disposition :: ast_cdr_disposition
  cdr_start :: timeval
  cdr_answer :: timeval
  cdr_end :: timeval
  cdr_sequence :: "32 word"
  cdr_flags :: "ast_cdr_options set"
  cdr_linkedid :: string
  cdr_name :: string
  cdr_bridge :: string
  cdr_appl :: string
  cdr_data :: string
  cdr_last :: nat

text \<open>
  The hangup causes of asterisk/causes.h that \<open>cdr_object_set_disposition\<close> switches
  on. The header is not among the sources, so their values are a parameter.
\<close>

record ast_causes =
  AST_CAUSE_BUSY :: int
  AST_CAUSE_CONGESTION :: int
  AST_CAUSE_NO_ROUTE_DESTINATION :: int
  AST_CAUSE_UNREGISTERED :: int
  AST_CAUSE_NORMAL_CLEARING :: int
  AST_CAUSE_NO_ANSWER :: int

text \<open>
  What a handler reads from outside the chain: the general settings of the module
  configuration, the cause codes, and the clock. One event is handled at one reading
  \<open>tvnow\<close> of the clock.
\<close>

record cdr_env =
  settings :: "cdr_setting set"
  causes :: ast_causes
  tvnow :: timeval

section \<open>Party A selection\<close>

definition snapshot_is_dialed :: "ast_channel_snapshot \<Rightarrow> bool" where
  "snapshot_is_dialed s =
     (ast_test_flag (chan_flags s) AST_FLAG_OUTGOING
      \<and> \<not> ast_test_flag (chan_flags s) AST_FLAG_ORIGINATED)"

definition cdr_object_pick_party_a ::
  "cdr_object_snapshot \<Rightarrow> cdr_object_snapshot \<Rightarrow> cdr_object_snapshot option" where
  "cdr_object_pick_party_a left right =
     (case snapshot left of None \<Rightarrow> None | Some l \<Rightarrow>
      (case snapshot right of None \<Rightarrow> None | Some r \<Rightarrow>
        Some (
          if \<not> snapshot_is_dialed l \<and> snapshot_is_dialed r then left
          else if snapshot_is_dialed l \<and> \<not> snapshot_is_dialed r then right
          else if ast_test_flag (flags left) AST_CDR_FLAG_PARTY_A
                  \<and> \<not> ast_test_flag (flags right) AST_CDR_FLAG_PARTY_A then left
          else if \<not> ast_test_flag (flags right) AST_CDR_FLAG_PARTY_A
                  \<and> ast_test_flag (flags right) AST_CDR_FLAG_PARTY_A then right
          else if tv_sec (chan_creationtime l) < tv_sec (chan_creationtime r) then left
          else if tv_sec (chan_creationtime l) > tv_sec (chan_creationtime r) then right
          else if tv_usec (chan_creationtime l) > tv_usec (chan_creationtime r) then right
          else left)))"

section \<open>Duration and billing seconds\<close>

text \<open>
  \<open>long\<close> and \<open>int64_t\<close> are unbounded integers here: the values are differences of
  clock readings. C's \<open>/\<close> and \<open>%\<close> truncate towards zero: \<open>sdiv\<close> and \<open>smod\<close>.
\<close>

definition cdr_object_get_duration :: "cdr_env \<Rightarrow> cdr_object \<Rightarrow> int" where
  "cdr_object_get_duration E cdr =
     (if ast_tvzero (cdr_end cdr) then ast_tvdiff_ms (tvnow E) (cdr_start cdr) sdiv 1000
      else ast_tvdiff_ms (cdr_end cdr) (cdr_start cdr) sdiv 1000)"

definition cdr_object_get_billsec :: "cdr_env \<Rightarrow> cdr_object \<Rightarrow> int" where
  "cdr_object_get_billsec E cdr =
     (if ast_tvzero (cdr_answer cdr) then 0
      else
        let ms = ast_tvdiff_ms (cdr_end cdr) (cdr_answer cdr) in
        if ast_test_flag (settings E) CDR_INITIATED_SECONDS \<and> ms smod 1000 \<ge> 500
        then (ms sdiv 1000) + 1
        else ms sdiv 1000)"

section \<open>Strings and variable lists\<close>

definition ascii_tolower :: "char \<Rightarrow> char" where
  "ascii_tolower c =
     (case map_of (zip ''ABCDEFGHIJKLMNOPQRSTUVWXYZ'' ''abcdefghijklmnopqrstuvwxyz'') c of
        None \<Rightarrow> c | Some l \<Rightarrow> l)"

definition strcasecmp_eq :: "string \<Rightarrow> string \<Rightarrow> bool" where
  \<comment> \<open>\<open>strcasecmp(a, b) == 0\<close>\<close>
  "strcasecmp_eq a b = (map ascii_tolower a = map ascii_tolower b)"

definition strncasecmp_eq :: "string \<Rightarrow> string \<Rightarrow> nat \<Rightarrow> bool" where
  \<comment> \<open>\<open>strncasecmp(a, b, n) == 0\<close>\<close>
  "strncasecmp_eq a b n = (map ascii_tolower (take n a) = map ascii_tolower (take n b))"

text \<open>
  The entries of a variable list are made and read by \<open>ast_var_assign\<close>,
  \<open>ast_var_name\<close> and \<open>ast_var_value\<close> of main/chanvars.c, which is not among the
  sources: \<open>ast_var_assign\<close> stores the name and the value it is given,
  \<open>ast_var_value\<close> returns the stored value, and \<open>ast_var_name\<close> returns the stored
  name without its first underscore, or without its first two when it starts with two.
\<close>

definition ast_var_assign :: "string \<Rightarrow> string \<Rightarrow> ast_var_t" where
  "ast_var_assign nm val = (nm, val)"

definition ast_var_value :: "ast_var_t \<Rightarrow> string" where
  "ast_var_value var = snd var"

definition ast_var_name :: "ast_var_t \<Rightarrow> string" where
  "ast_var_name var =
     (case fst var of
        [] \<Rightarrow> []
      | c # cs \<Rightarrow>
          if c = CHR ''_'' then
            (case cs of
               [] \<Rightarrow> []
             | d # ds \<Rightarrow> if d = CHR ''_'' then ds else cs)
          else c # cs)"

text \<open>
  \<open>copy_variables\<close> walks the source list from its head; for every entry whose name
  (as \<open>ast_var_name\<close> returns it) and value are not empty it makes a new entry of
  that name and value and inserts it at the head of the destination. It returns the
  number copied.
\<close>

fun copy_variables :: "varshead \<Rightarrow> varshead \<Rightarrow> varshead \<times> int" where
  "copy_variables to_list [] = (to_list, 0)"
| "copy_variables to_list (v # from_list) =
     (if ast_var_name v \<noteq> [] \<and> ast_var_value v \<noteq> []
      then (case copy_variables
                   (ast_var_assign (ast_var_name v) (ast_var_value v) # to_list)
                   from_list of
              (t, x) \<Rightarrow> (t, x + 1))
      else copy_variables to_list from_list)"

definition free_variables :: "varshead \<Rightarrow> varshead" where
  "free_variables headp = []"

fun remove_current :: "string \<Rightarrow> varshead \<Rightarrow> varshead" where
  \<comment> \<open>the traversal of \<open>set_variable\<close>: the first entry of that name is removed\<close>
  "remove_current nm [] = []"
| "remove_current nm (v # vs) =
     (if strcasecmp_eq (ast_var_name v) nm then vs else v # remove_current nm vs)"

definition set_variable :: "varshead \<Rightarrow> string \<Rightarrow> string option \<Rightarrow> varshead" where
  "set_variable headp nm val =
     (let h = remove_current nm headp in
      case val of None \<Rightarrow> h | Some v \<Rightarrow> ast_var_assign nm v # h)"

section \<open>Snapshots of a party\<close>

definition cdr_object_snapshot_copy ::
  "cdr_object_snapshot \<Rightarrow> cdr_object_snapshot \<Rightarrow> cdr_object_snapshot" where
  "cdr_object_snapshot_copy dst src =
     dst\<lparr>snapshot := snapshot src, userfield := userfield src, flags := flags src,
         variables := fst (copy_variables (variables dst) (variables src))\<rparr>"

definition cdr_object_update_cid ::
  "cdr_object_snapshot \<Rightarrow> ast_channel_snapshot \<Rightarrow> cdr_object_snapshot" where
  "cdr_object_update_cid old_snapshot new_snapshot =
     (case snapshot old_snapshot of
        None \<Rightarrow>
          old_snapshot\<lparr>variables :=
            set_variable
              (set_variable
                (set_variable (variables old_snapshot) ''dnid''
                   (Some (chan_caller_dnid new_snapshot)))
                ''callingsubaddr'' (Some (chan_caller_subaddr new_snapshot)))
              ''calledsubaddr'' (Some (chan_dialed_subaddr new_snapshot))\<rparr>
      | Some old \<Rightarrow>
          (let v1 = (if chan_caller_dnid old = chan_caller_dnid new_snapshot
                     then set_variable (variables old_snapshot) ''dnid''
                            (Some (chan_caller_dnid new_snapshot))
                     else variables old_snapshot);
               v2 = (if chan_caller_subaddr old = chan_caller_subaddr new_snapshot
                     then set_variable v1 ''callingsubaddr''
                            (Some (chan_caller_subaddr new_snapshot))
                     else v1);
               v3 = (if chan_dialed_subaddr old = chan_dialed_subaddr new_snapshot
                     then set_variable v2 ''calledsubaddr''
                            (Some (chan_dialed_subaddr new_snapshot))
                     else v2)
           in old_snapshot\<lparr>variables := v3\<rparr>))"

definition cdr_object_swap_snapshot ::
  "cdr_object_snapshot \<Rightarrow> ast_channel_snapshot \<Rightarrow> cdr_object_snapshot" where
  \<comment> \<open>the new snapshot is dereferenced, so callers check it for NULL first\<close>
  "cdr_object_swap_snapshot old_snapshot new_snapshot =
     (cdr_object_update_cid old_snapshot new_snapshot)\<lparr>snapshot := Some new_snapshot\<rparr>"

section \<open>Finalizing and state transitions\<close>

definition cdr_object_set_disposition :: "cdr_env \<Rightarrow> cdr_object \<Rightarrow> int \<Rightarrow> cdr_object" where
  "cdr_object_set_disposition E cdr hangupcause =
     (if hangupcause = AST_CAUSE_BUSY (causes E) then cdr\<lparr>disposition := AST_CDR_BUSY\<rparr>
      else if hangupcause = AST_CAUSE_CONGESTION (causes E) then
        (if \<not> ast_test_flag (settings E) CDR_CONGESTION
         then cdr\<lparr>disposition := AST_CDR_FAILED\<rparr>
         else cdr\<lparr>disposition := AST_CDR_CONGESTION\<rparr>)
      else if hangupcause = AST_CAUSE_NO_ROUTE_DESTINATION (causes E)
              \<or> hangupcause = AST_CAUSE_UNREGISTERED (causes E)
        then cdr\<lparr>disposition := AST_CDR_FAILED\<rparr>
      else if hangupcause = AST_CAUSE_NORMAL_CLEARING (causes E)
              \<or> hangupcause = AST_CAUSE_NO_ANSWER (causes E)
        then cdr\<lparr>disposition := AST_CDR_NOANSWER\<rparr>
      else cdr)"

definition cdr_object_finalize :: "cdr_env \<Rightarrow> cdr_object \<Rightarrow> cdr_object option" where
  "cdr_object_finalize E cdr =
     (if \<not> ast_tvzero (cdr_end cdr) then Some cdr
      else
        let c = cdr\<lparr>cdr_end := tvnow E\<rparr> in
        if disposition c = AST_CDR_NULL then
          (if \<not> ast_tvzero (cdr_answer c) then Some (c\<lparr>disposition := AST_CDR_ANSWERED\<rparr>)
           else
             (case snapshot (party_a c) of
                None \<Rightarrow> None
              | Some a \<Rightarrow>
                  if chan_hangupcause a \<noteq> 0
                  then Some (cdr_object_set_disposition E c (chan_hangupcause a))
                  else
                    (case snapshot (party_b c) of
                       Some b \<Rightarrow>
                         if chan_hangupcause b \<noteq> 0
                         then Some (cdr_object_set_disposition E c (chan_hangupcause b))
                         else Some (c\<lparr>disposition := AST_CDR_FAILED\<rparr>)
                     | None \<Rightarrow> Some (c\<lparr>disposition := AST_CDR_FAILED\<rparr>))))
        else Some c)"

definition cdr_object_check_party_a_answer :: "cdr_env \<Rightarrow> cdr_object \<Rightarrow> cdr_object option" where
  "cdr_object_check_party_a_answer E cdr =
     (case snapshot (party_a cdr) of
        None \<Rightarrow> None
      | Some a \<Rightarrow>
          Some (if chan_state a = AST_STATE_UP \<and> ast_tvzero (cdr_answer cdr)
                then cdr\<lparr>cdr_answer := tvnow E\<rparr> else cdr))"

definition single_state_init_function :: "cdr_env \<Rightarrow> cdr_object \<Rightarrow> cdr_object option" where
  "single_state_init_function E cdr =
     cdr_object_check_party_a_answer E (cdr\<lparr>cdr_start := tvnow E\<rparr>)"

definition finalized_state_init_function :: "cdr_env \<Rightarrow> cdr_object \<Rightarrow> cdr_object option" where
  "finalized_state_init_function E cdr =
     (if \<not> ast_test_flag (settings E) CDR_END_BEFORE_H_EXTEN then Some cdr
      else cdr_object_finalize E cdr)"

text \<open>
  \<open>cdr_object_transition_state\<close> stores the table and runs its init function. Single and
  Finalized have one that works on the record. The init function of Pending
  (\<open>pending_state_init_function\<close>) goes through the channel index with
  \<open>ast_cdr_set_property\<close>; only \<open>handle_bridge_leave_message\<close> moves a record to
  Pending, and no function below does, so that part is left to the caller here.
\<close>

definition cdr_object_transition_state ::
  "cdr_env \<Rightarrow> cdr_object \<Rightarrow> cdr_object_fn_table \<Rightarrow> cdr_object option" where
  "cdr_object_transition_state E cdr tbl =
     (let c = cdr\<lparr>fn_table := tbl\<rparr> in
      case tbl of
        single_state_fn_table \<Rightarrow> single_state_init_function E c
      | finalized_state_fn_table \<Rightarrow> finalized_state_init_function E c
      | _ \<Rightarrow> Some c)"

definition cdr_object_check_party_a_hangup :: "cdr_env \<Rightarrow> cdr_object \<Rightarrow> cdr_object option" where
  "cdr_object_check_party_a_hangup E cdr =
     (case snapshot (party_a cdr) of
        None \<Rightarrow> None
      | Some a \<Rightarrow>
          if ast_test_flag (chan_flags a) AST_FLAG_ZOMBIE
             \<and> fn_table cdr \<noteq> finalized_state_fn_table
          then cdr_object_transition_state E cdr finalized_state_fn_table
          else Some cdr)"

section \<open>Creating records and appending them to a chain\<close>

text \<open>
  \<open>cdr_object_alloc\<close> takes the global sequence counter and returns the new record with
  the counter after \<open>ast_atomic_fetchadd_int\<close>. The allocation is zeroed; \<open>pos\<close> is the
  position the new record will have, for \<open>cdr->last = cdr\<close>. The table is NULL until
  \<open>cdr_object_transition_state\<close> stores the Single one.
\<close>

definition cdr_object_alloc ::
  "cdr_env \<Rightarrow> 32 word \<Rightarrow> ast_channel_snapshot \<Rightarrow> nat \<Rightarrow> (cdr_object \<times> 32 word) option" where
  "cdr_object_alloc E seq chan pos =
     (let cdr =
        \<lparr>party_a = \<lparr>snapshot = Some chan, userfield = [], flags = {}, variables = []\<rparr>,
         party_b = \<lparr>snapshot = None, userfield = [], flags = {}, variables = []\<rparr>,
         fn_table = single_state_fn_table,
         disposition = AST_CDR_NULL,
         cdr_start = tv_zero, cdr_answer = tv_zero, cdr_end = tv_zero,
         cdr_sequence = seq,
         cdr_flags = {},
         cdr_linkedid = chan_linkedid chan,
         cdr_name = chan_name chan,
         cdr_bridge = [], cdr_appl = [], cdr_data = [],
         cdr_last = pos\<rparr>
      in case cdr_object_transition_state E cdr single_state_fn_table of
           None \<Rightarrow> None
         | Some c \<Rightarrow> Some (c, seq + 1))"

text \<open>
  \<open>cdr_object_create_and_append\<close> on the record at position \<open>i\<close> of the chain. The
  result is the chain with the new record at its end, the position of the new record,
  and the sequence counter. A position outside the chain has no pointer behind it.
\<close>

definition cdr_object_create_and_append ::
  "cdr_env \<Rightarrow> 32 word \<Rightarrow> cdr_object list \<Rightarrow> nat
     \<Rightarrow> (cdr_object list \<times> nat \<times> 32 word) option" where
  "cdr_object_create_and_append E seq chain i =
     (if \<not> i < length chain then None
      else if \<not> cdr_last (chain ! i) < length chain then None
      else
        let cdr_last_obj = chain ! cdr_last (chain ! i) in
        case snapshot (party_a cdr_last_obj) of
          None \<Rightarrow> None
        | Some chan \<Rightarrow>
            (case cdr_object_alloc E seq chan (length chain) of
               None \<Rightarrow> None
             | Some (new_cdr, seq') \<Rightarrow>
                 let new_cdr = new_cdr\<lparr>disposition := AST_CDR_NULL\<rparr>;
                     new_cdr = new_cdr\<lparr>cdr_linkedid := cdr_linkedid cdr_last_obj,
                                       cdr_appl := cdr_appl cdr_last_obj,
                                       cdr_data := cdr_data cdr_last_obj\<rparr>;
                     new_cdr = new_cdr\<lparr>party_a :=
                                 cdr_object_snapshot_copy (party_a new_cdr)
                                   (party_a cdr_last_obj)\<rparr>
                 in Some (take i chain
                            @ map (\<lambda>it_cdr. it_cdr\<lparr>cdr_last := length chain\<rparr>) (drop i chain)
                            @ [new_cdr],
                          length chain, seq')))"

section \<open>Handlers of the states\<close>

text \<open>A handler returns its \<open>int\<close> result with the record after the call.\<close>

definition base_process_party_a ::
  "cdr_env \<Rightarrow> cdr_object \<Rightarrow> ast_channel_snapshot \<Rightarrow> (int \<times> cdr_object) option" where
  "base_process_party_a E cdr snap =
     (let c = cdr\<lparr>party_a := cdr_object_swap_snapshot (party_a cdr) snap\<rparr>;
          c = (if chan_appl snap \<noteq> []
                  \<and> (\<not> strncasecmp_eq (chan_appl snap) ''appdial'' 7 \<or> cdr_appl c = [])
               then c\<lparr>cdr_appl := chan_appl snap, cdr_data := chan_data snap\<rparr>
               else c);
          c = c\<lparr>cdr_linkedid := chan_linkedid snap\<rparr>
      in case cdr_object_check_party_a_answer E c of
           None \<Rightarrow> None
         | Some c \<Rightarrow>
             (case cdr_object_check_party_a_hangup E c of
                None \<Rightarrow> None
              | Some c \<Rightarrow> Some (0, c)))"

definition base_process_dial_end ::
  "cdr_env \<Rightarrow> cdr_object \<Rightarrow> ast_channel_snapshot option \<Rightarrow> ast_channel_snapshot option
     \<Rightarrow> string \<Rightarrow> (int \<times> cdr_object) option" where
  "base_process_dial_end E cdr caller peer dial_status = Some (0, cdr)"

definition single_state_process_dial_begin ::
  "cdr_env \<Rightarrow> cdr_object \<Rightarrow> ast_channel_snapshot option \<Rightarrow> ast_channel_snapshot option
     \<Rightarrow> (int \<times> cdr_object) option" where
  "single_state_process_dial_begin E cdr caller peer =
     (case snapshot (party_a cdr) of
        None \<Rightarrow> None
      | Some a \<Rightarrow>
          (let as_dialed =
                 (case peer of
                    None \<Rightarrow> None
                  | Some p \<Rightarrow>
                      if chan_name a = chan_name p
                      then Some (cdr\<lparr>party_a := cdr_object_swap_snapshot (party_a cdr) p\<rparr>)
                      else Some cdr);
               updated =
                 (case caller of
                    None \<Rightarrow> as_dialed
                  | Some cl \<Rightarrow>
                      if chan_name a = chan_name cl then
                        (let c = cdr\<lparr>party_a := cdr_object_swap_snapshot (party_a cdr) cl\<rparr>
                         in case peer of
                              None \<Rightarrow> None
                            | Some p \<Rightarrow>
                                Some (c\<lparr>party_b := cdr_object_swap_snapshot (party_b c) p\<rparr>))
                      else as_dialed)
           in case updated of
                None \<Rightarrow> None
              | Some c \<Rightarrow>
                  (case cdr_object_transition_state E c dial_state_fn_table of
                     None \<Rightarrow> None
                   | Some c \<Rightarrow> Some (0, c))))"

definition dial_state_process_dial_begin ::
  "cdr_env \<Rightarrow> cdr_object \<Rightarrow> ast_channel_snapshot option \<Rightarrow> ast_channel_snapshot option
     \<Rightarrow> (int \<times> cdr_object) option" where
  "dial_state_process_dial_begin E cdr caller peer = Some (1, cdr)"

definition dial_status_to_disposition :: "cdr_env \<Rightarrow> string \<Rightarrow> ast_cdr_disposition" where
  "dial_status_to_disposition E dial_status =
     (if dial_status = ''ANSWER'' then AST_CDR_ANSWERED
      else if dial_status = ''BUSY'' then AST_CDR_BUSY
      else if dial_status = ''CANCEL'' \<or> dial_status = ''NOANSWER'' then AST_CDR_NOANSWER
      else if dial_status = ''CONGESTION'' then
        (if \<not> ast_test_flag (settings E) CDR_CONGESTION then AST_CDR_FAILED
         else AST_CDR_CONGESTION)
      else if dial_status = ''FAILED'' then AST_CDR_FAILED
      else AST_CDR_FAILED)"

definition dial_state_process_dial_end ::
  "cdr_env \<Rightarrow> cdr_object \<Rightarrow> ast_channel_snapshot option \<Rightarrow> ast_channel_snapshot option
     \<Rightarrow> string \<Rightarrow> (int \<times> cdr_object) option" where
  "dial_state_process_dial_end E cdr caller peer dial_status =
     (case (case caller of Some c \<Rightarrow> Some c | None \<Rightarrow> peer) of
        None \<Rightarrow> None
      | Some pa \<Rightarrow>
          (let c = cdr\<lparr>party_a := cdr_object_swap_snapshot (party_a cdr) pa\<rparr>;
               set_and_move = (\<lambda>c.
                 let c = c\<lparr>disposition := dial_status_to_disposition E dial_status\<rparr> in
                 case (if disposition c = AST_CDR_ANSWERED
                       then cdr_object_transition_state E c dialed_pending_state_fn_table
                       else cdr_object_transition_state E c finalized_state_fn_table) of
                   None \<Rightarrow> None
                 | Some c \<Rightarrow> Some (0, c))
           in case snapshot (party_b c) of
                None \<Rightarrow> set_and_move c
              | Some b \<Rightarrow>
                  (case peer of
                     None \<Rightarrow> None
                   | Some p \<Rightarrow>
                       if chan_name b \<noteq> chan_name p then Some (1, c)
                       else set_and_move
                              (c\<lparr>party_b := cdr_object_swap_snapshot (party_b c) p\<rparr>))))"

text \<open>
  The slot \<open>process_dial_end\<close> of the six tables: Single and Pending hold
  \<open>base_process_dial_end\<close>, Dial holds \<open>dial_state_process_dial_end\<close>, the other three
  hold NULL.
\<close>

definition fn_table_process_dial_end ::
  "cdr_object_fn_table \<Rightarrow>
     (cdr_env \<Rightarrow> cdr_object \<Rightarrow> ast_channel_snapshot option \<Rightarrow> ast_channel_snapshot option
        \<Rightarrow> string \<Rightarrow> (int \<times> cdr_object) option) option" where
  "fn_table_process_dial_end tbl =
     (case tbl of
        single_state_fn_table \<Rightarrow> Some base_process_dial_end
      | dial_state_fn_table \<Rightarrow> Some dial_state_process_dial_end
      | bridged_pending_state_fn_table \<Rightarrow> Some base_process_dial_end
      | _ \<Rightarrow> None)"

text \<open>
  \<open>dialed_pending_state_process_dial_begin\<close> appends to the chain, so it works on the
  chain and the position \<open>i\<close> of \<open>cdr\<close>. The last line of the C function calls the slot
  of \<open>new_cdr\<close>, which \<open>cdr_object_alloc\<close> left in the Single state, with \<open>cdr\<close> as its
  argument.
\<close>

definition dialed_pending_state_process_dial_begin ::
  "cdr_env \<Rightarrow> 32 word \<Rightarrow> cdr_object list \<Rightarrow> nat \<Rightarrow> ast_channel_snapshot option
     \<Rightarrow> ast_channel_snapshot option \<Rightarrow> (int \<times> cdr_object list \<times> 32 word) option" where
  "dialed_pending_state_process_dial_begin E seq chain i caller peer =
     (if \<not> i < length chain then None
      else
        case cdr_object_transition_state E (chain ! i) finalized_state_fn_table of
          None \<Rightarrow> None
        | Some c1 \<Rightarrow>
            (case cdr_object_create_and_append E seq (chain[i := c1]) i of
               None \<Rightarrow> None
             | Some (chain2, new_cdr, seq') \<Rightarrow>
                 (case cdr_object_transition_state E (chain2 ! i) single_state_fn_table of
                    None \<Rightarrow> None
                  | Some c3 \<Rightarrow>
                      (case single_state_process_dial_begin E c3 caller peer of
                         None \<Rightarrow> None
                       | Some (res, c4) \<Rightarrow> Some (res, chain2[i := c4], seq')))))"


section \<open>Party B handlers and walks over a chain\<close>

definition single_state_process_party_b ::
  "cdr_env \<Rightarrow> cdr_object \<Rightarrow> ast_channel_snapshot \<Rightarrow> cdr_object option" where
  "single_state_process_party_b E cdr snap = Some cdr"

definition dial_state_process_party_b ::
  "cdr_env \<Rightarrow> cdr_object \<Rightarrow> ast_channel_snapshot \<Rightarrow> cdr_object option" where
  "dial_state_process_party_b E cdr snap =
     (case snapshot (party_b cdr) of
        None \<Rightarrow> Some cdr
      | Some b \<Rightarrow>
          if chan_name b \<noteq> chan_name snap then Some cdr
          else
            let c = cdr\<lparr>party_b := cdr_object_swap_snapshot (party_b cdr) snap\<rparr> in
            if ast_test_flag (chan_flags snap) AST_FLAG_ZOMBIE
            then cdr_object_transition_state E c finalized_state_fn_table
            else Some c)"

definition bridge_state_process_party_b ::
  "cdr_env \<Rightarrow> cdr_object \<Rightarrow> ast_channel_snapshot \<Rightarrow> cdr_object option" where
  "bridge_state_process_party_b E cdr snap =
     (case snapshot (party_b cdr) of
        None \<Rightarrow> Some cdr
      | Some b \<Rightarrow>
          if chan_name b \<noteq> chan_name snap then Some cdr
          else
            let c = cdr\<lparr>party_b := cdr_object_swap_snapshot (party_b cdr) snap\<rparr> in
            if ast_test_flag (chan_flags snap) AST_FLAG_ZOMBIE
            then cdr_object_transition_state E c finalized_state_fn_table
            else Some c)"

text \<open>
  The slot \<open>process_party_b\<close> of the six tables: Single, Dial and Bridged fill it, the
  other three hold NULL.
\<close>

definition fn_table_process_party_b ::
  "cdr_object_fn_table \<Rightarrow>
     (cdr_env \<Rightarrow> cdr_object \<Rightarrow> ast_channel_snapshot \<Rightarrow> cdr_object option) option" where
  "fn_table_process_party_b tbl =
     (case tbl of
        single_state_fn_table \<Rightarrow> Some single_state_process_party_b
      | dial_state_fn_table \<Rightarrow> Some dial_state_process_party_b
      | bridge_state_fn_table \<Rightarrow> Some bridge_state_process_party_b
      | _ \<Rightarrow> None)"

definition update_party_b_record ::
  "cdr_env \<Rightarrow> cdr_object \<Rightarrow> ast_channel_snapshot \<Rightarrow> cdr_object option" where
  \<comment> \<open>the body of the loop of \<open>cdr_object_update_party_b\<close> (lines 1802-1807)\<close>
  "update_party_b_record E it_cdr party_b_snap =
     (case fn_table_process_party_b (fn_table it_cdr) of
        None \<Rightarrow> Some it_cdr
      | Some process_party_b \<Rightarrow>
          (case snapshot (party_b it_cdr) of
             None \<Rightarrow> Some it_cdr
           | Some b \<Rightarrow>
               if chan_name b = chan_name party_b_snap
               then process_party_b E it_cdr party_b_snap
               else Some it_cdr))"

fun cdr_object_update_party_b ::
  "cdr_env \<Rightarrow> cdr_object list \<Rightarrow> ast_channel_snapshot \<Rightarrow> cdr_object list option" where
  "cdr_object_update_party_b E [] party_b_snap = Some []"
| "cdr_object_update_party_b E (it_cdr # rest) party_b_snap =
     (case update_party_b_record E it_cdr party_b_snap of
        None \<Rightarrow> None
      | Some c \<Rightarrow>
          (case cdr_object_update_party_b E rest party_b_snap of
             None \<Rightarrow> None
           | Some rest' \<Rightarrow> Some (c # rest')))"

definition finalize_party_b_record ::
  "cdr_env \<Rightarrow> cdr_object \<Rightarrow> ast_channel_snapshot \<Rightarrow> cdr_object option" where
  \<comment> \<open>the body of the loop of \<open>cdr_object_finalize_party_b\<close> (lines 1786-1791)\<close>
  "finalize_party_b_record E it_cdr party_b_snap =
     (case snapshot (party_b it_cdr) of
        None \<Rightarrow> Some it_cdr
      | Some b \<Rightarrow>
          if chan_name b = chan_name party_b_snap then cdr_object_finalize E it_cdr
          else Some it_cdr)"

fun cdr_object_finalize_party_b ::
  "cdr_env \<Rightarrow> cdr_object list \<Rightarrow> ast_channel_snapshot \<Rightarrow> cdr_object list option" where
  "cdr_object_finalize_party_b E [] party_b_snap = Some []"
| "cdr_object_finalize_party_b E (it_cdr # rest) party_b_snap =
     (case finalize_party_b_record E it_cdr party_b_snap of
        None \<Rightarrow> None
      | Some c \<Rightarrow>
          (case cdr_object_finalize_party_b E rest party_b_snap of
             None \<Rightarrow> None
           | Some rest' \<Rightarrow> Some (c # rest')))"

text \<open>
  \<open>bridge_candidate_add_to_cdr\<close> on the record at position \<open>i\<close> of a chain: it appends
  a record, gives it the Party B, and moves it to the Bridged state. The result is
  the chain and the sequence counter.
\<close>

definition bridge_candidate_add_to_cdr ::
  "cdr_env \<Rightarrow> 32 word \<Rightarrow> cdr_object list \<Rightarrow> nat \<Rightarrow> cdr_object_snapshot
     \<Rightarrow> (cdr_object list \<times> 32 word) option" where
  "bridge_candidate_add_to_cdr E seq chain i party_b_snap =
     (case cdr_object_create_and_append E seq chain i of
        None \<Rightarrow> None
      | Some (chain1, new_pos, seq') \<Rightarrow>
          let new_cdr = chain1 ! new_pos;
              new_cdr = new_cdr\<lparr>party_b :=
                          cdr_object_snapshot_copy (party_b new_cdr) party_b_snap\<rparr>
          in case cdr_object_check_party_a_answer E new_cdr of
               None \<Rightarrow> None
             | Some new_cdr \<Rightarrow>
                 (case cdr_object_transition_state E
                         (new_cdr\<lparr>cdr_bridge := cdr_bridge (chain1 ! i)\<rparr>)
                         bridge_state_fn_table of
                    None \<Rightarrow> None
                  | Some new_cdr \<Rightarrow> Some (chain1[new_pos := new_cdr], seq')))"

section \<open>Bus messages reaching a record in the Finalized state\<close>



record route_context =
  own_chain :: bool
  is_head :: bool
  res :: int
  appended :: "nat list"



section \<open>Public records\<close>

text \<open>
  The fields of \<open>struct ast_cdr\<close> that \<open>cdr_object_create_public_records\<close> fills without
  \<open>ast_copy_string\<close>. The character arrays, whose sizes asterisk/cdr.h declares, are
  left out. \<open>pub_varshead\<close> is the list of variables as a traversal from its head
  reads it.
\<close>

record ast_cdr =
  pub_amaflags :: int
  pub_start :: timeval
  pub_answer :: timeval
  pub_end :: timeval
  pub_billsec :: int
  pub_duration :: int
  pub_flags :: "ast_cdr_options set"
  pub_disposition :: ast_cdr_disposition
  pub_sequence :: "32 word"
  pub_varshead :: varshead

text \<open>
  The list of the public record is filled in two ways. \<open>copy_variables\<close> inserts at its
  head, and the traversal of Party B's variables inserts at its tail with
  \<open>AST_LIST_INSERT_TAIL\<close>. That macro is defined in asterisk/linkedlists.h, which is
  not among the sources:
  \<^verbatim>\<open>if (!(head)->first) { (head)->first = (elm); (head)->last = (elm); }
  else { (head)->last->field.next = (elm); (head)->last = (elm); }\<close>
  It names its element twice, and lines 1017-1018 pass it the call
  \<open>ast_var_assign(...)\<close>, so each of the two places gets an entry of its own. The first
  entry is linked where the old \<open>last\<close> ended (or becomes \<open>first\<close>); the second
  becomes \<open>last\<close> and is linked to nothing. What a later insert links behind such a
  \<open>last\<close> is not reached from \<open>first\<close>.

  So the head of that list is modelled by the entries a traversal from \<open>first\<close>
  reaches, and by whether \<open>last\<close> is the final one of them (or NULL when there is
  none). After \<open>copy_variables\<close>, which uses \<open>AST_LIST_INSERT_HEAD\<close> with a variable
  as element, it is.
\<close>

record varshead_head =
  reached :: varshead
  last_reached :: bool

definition AST_LIST_INSERT_TAIL_assign :: "varshead_head \<Rightarrow> ast_var_t \<Rightarrow> varshead_head" where
  \<comment> \<open>\<open>AST_LIST_INSERT_TAIL(head, ast_var_assign(...), entries)\<close>; \<open>e\<close> is what each
     evaluation of the call makes\<close>
  "AST_LIST_INSERT_TAIL_assign head e =
     (if reached head = [] then \<lparr>reached = [e], last_reached = False\<rparr>
      else if last_reached head then \<lparr>reached = reached head @ [e], last_reached = False\<rparr>
      else \<lparr>reached = reached head, last_reached = False\<rparr>)"

fun append_party_b_variables :: "varshead_head \<Rightarrow> varshead \<Rightarrow> varshead_head" where
  \<comment> \<open>the traversal of Party B's variables (lines 1008-1020): an entry whose name no
     entry reached in the copy has (\<open>strcmp\<close>) is inserted at the tail of the copy\<close>
  "append_party_b_variables copy_head [] = copy_head"
| "append_party_b_variables copy_head (it_var # rest) =
     append_party_b_variables
       (if list_ex (\<lambda>it_copy_var. ast_var_name it_var = ast_var_name it_copy_var)
             (reached copy_head)
        then copy_head
        else AST_LIST_INSERT_TAIL_assign copy_head
               (ast_var_assign (ast_var_name it_var) (ast_var_value it_var)))
       rest"

definition cdr_object_public_record :: "cdr_env \<Rightarrow> cdr_object \<Rightarrow> ast_cdr option" where
  \<comment> \<open>the body of the loop of \<open>cdr_object_create_public_records\<close> for a record that is
     not skipped\<close>
  "cdr_object_public_record E cdr =
     (case snapshot (party_a cdr) of
        None \<Rightarrow> None
      | Some a \<Rightarrow>
          Some \<lparr>pub_amaflags = chan_amaflags a,
                pub_start = cdr_start cdr,
                pub_answer = cdr_answer cdr,
                pub_end = cdr_end cdr,
                pub_billsec = cdr_object_get_billsec E cdr,
                pub_duration = cdr_object_get_duration E cdr,
                pub_flags = cdr_flags cdr,
                pub_disposition = disposition cdr,
                pub_sequence = cdr_sequence cdr,
                pub_varshead =
                  reached
                    (append_party_b_variables
                       \<lparr>reached = fst (copy_variables [] (variables (party_a cdr))),
                        last_reached = True\<rparr>
                       (variables (party_b cdr)))\<rparr>)"

fun cdr_object_create_public_records ::
  "cdr_env \<Rightarrow> cdr_object list \<Rightarrow> ast_cdr list option" where
  "cdr_object_create_public_records E [] = Some []"
| "cdr_object_create_public_records E (cdr # rest) =
     (case snapshot (party_a cdr) of
        None \<Rightarrow> None
      | Some a \<Rightarrow>
          if snapshot_is_dialed a then cdr_object_create_public_records E rest
          else
            (case cdr_object_public_record E cdr of
               None \<Rightarrow> None
             | Some cdr_copy \<Rightarrow>
                 (case cdr_object_create_public_records E rest of
                    None \<Rightarrow> None
                  | Some pub \<Rightarrow> Some (cdr_copy # pub))))"

section \<open>The channel index and the public interface\<close>

text \<open>
  \<open>active_cdrs_by_channel\<close> holds the chains; its traversal order is the order of the
  list. \<open>ao2_find\<close> with \<open>cdr_object_channel_cmp_fn\<close> yields the first chain whose head
  has the name, compared without case; here, its position.
\<close>

record cdr_engine =
  active_cdrs_by_channel :: "cdr_object list list"
  global_cdr_sequence :: "32 word"

fun ao2_find_channel :: "cdr_object list list \<Rightarrow> string \<Rightarrow> nat option" where
  "ao2_find_channel [] nm = None"
| "ao2_find_channel (chain # rest) nm =
     (case chain of
        cdr # _ \<Rightarrow>
          if strcasecmp_eq (cdr_name cdr) nm then Some 0
          else map_option Suc (ao2_find_channel rest nm)
      | [] \<Rightarrow> map_option Suc (ao2_find_channel rest nm))"

definition cdr_readonly_vars :: "string list" where
  "cdr_readonly_vars =
     [''clid'', ''src'', ''dst'', ''dcontext'', ''channel'', ''dstchannel'',
      ''lastapp'', ''lastdata'', ''start'', ''answer'', ''end'', ''duration'',
      ''billsec'', ''disposition'', ''amaflags'', ''accountcode'', ''uniqueid'',
      ''linkedid'', ''userfield'', ''sequence'']"

definition cdr_object_select_all_by_channel_cb :: "cdr_object \<Rightarrow> string \<Rightarrow> bool option" where
  "cdr_object_select_all_by_channel_cb cdr nm =
     (case snapshot (party_a cdr) of
        None \<Rightarrow> None
      | Some a \<Rightarrow>
          Some (strcasecmp_eq (chan_name a) nm
                \<or> (case snapshot (party_b cdr) of
                      None \<Rightarrow> False
                    | Some b \<Rightarrow> strcasecmp_eq (chan_name b) nm)))"

fun setvar_chain :: "string \<Rightarrow> string \<Rightarrow> string option \<Rightarrow> cdr_object list
                       \<Rightarrow> cdr_object list option" where
  \<comment> \<open>the inner loop of \<open>ast_cdr_setvar\<close> over the records of one chain\<close>
  "setvar_chain channel_name nm val [] = Some []"
| "setvar_chain channel_name nm val (it_cdr # rest) =
     (case (if fn_table it_cdr = finalized_state_fn_table then Some it_cdr
            else
              (case snapshot (party_a it_cdr) of
                 None \<Rightarrow> None
               | Some a \<Rightarrow>
                   if channel_name = chan_name a
                   then Some (it_cdr\<lparr>party_a := (party_a it_cdr)
                                \<lparr>variables := set_variable (variables (party_a it_cdr)) nm val\<rparr>\<rparr>)
                   else
                     (case snapshot (party_b it_cdr) of
                        None \<Rightarrow> Some it_cdr
                      | Some b \<Rightarrow>
                          if channel_name = chan_name b
                          then Some (it_cdr\<lparr>party_b := (party_b it_cdr)
                                 \<lparr>variables :=
                                    set_variable (variables (party_b it_cdr)) nm val\<rparr>\<rparr>)
                          else Some it_cdr))) of
        None \<Rightarrow> None
      | Some c \<Rightarrow>
          (case setvar_chain channel_name nm val rest of
             None \<Rightarrow> None
           | Some rest' \<Rightarrow> Some (c # rest')))"

fun setvar_chains :: "string \<Rightarrow> string \<Rightarrow> string option \<Rightarrow> cdr_object list list
                        \<Rightarrow> cdr_object list list option" where
  \<comment> \<open>the chains that \<open>ao2_callback\<close> selects by their head, each one updated\<close>
  "setvar_chains channel_name nm val [] = Some []"
| "setvar_chains channel_name nm val (chain # rest) =
     (case (case chain of
              [] \<Rightarrow> Some chain
            | cdr # _ \<Rightarrow>
                (case cdr_object_select_all_by_channel_cb cdr channel_name of
                   None \<Rightarrow> None
                 | Some False \<Rightarrow> Some chain
                 | Some True \<Rightarrow> setvar_chain channel_name nm val chain)) of
        None \<Rightarrow> None
      | Some chain' \<Rightarrow>
          (case setvar_chains channel_name nm val rest of
             None \<Rightarrow> None
           | Some rest' \<Rightarrow> Some (chain' # rest')))"

definition ast_cdr_setvar ::
  "cdr_engine \<Rightarrow> string \<Rightarrow> string \<Rightarrow> string option \<Rightarrow> (int \<times> cdr_engine) option" where
  "ast_cdr_setvar eng channel_name nm val =
     (if list_ex (\<lambda>ro. strcasecmp_eq nm ro) cdr_readonly_vars then Some (- 1, eng)
      else
        case setvar_chains channel_name nm val (active_cdrs_by_channel eng) of
          None \<Rightarrow> None
        | Some updated \<Rightarrow> Some (0, eng\<lparr>active_cdrs_by_channel := updated\<rparr>))"

fun fork_finalize :: "cdr_env \<Rightarrow> cdr_object list \<Rightarrow> cdr_object list option" where
  \<comment> \<open>the loop of \<open>ast_cdr_fork\<close> over the records before \<open>new_cdr\<close>\<close>
  "fork_finalize E [] = Some []"
| "fork_finalize E (it_cdr # rest) =
     (case (if fn_table it_cdr = finalized_state_fn_table then Some it_cdr
            else
              (case cdr_object_finalize E it_cdr of
                 None \<Rightarrow> None
               | Some c \<Rightarrow> cdr_object_transition_state E c finalized_state_fn_table)) of
        None \<Rightarrow> None
      | Some c \<Rightarrow>
          (case fork_finalize E rest of
             None \<Rightarrow> None
           | Some rest' \<Rightarrow> Some (c # rest')))"

definition ast_cdr_fork ::
  "cdr_env \<Rightarrow> cdr_engine \<Rightarrow> string \<Rightarrow> ast_cdr_options set \<Rightarrow> (int \<times> cdr_engine) option" where
  "ast_cdr_fork E eng channel_name options =
     (case ao2_find_channel (active_cdrs_by_channel eng) channel_name of
        None \<Rightarrow> Some (- 1, eng)
      | Some k \<Rightarrow>
          (case active_cdrs_by_channel eng ! k of
             [] \<Rightarrow> None
           | cdr # tl_chain \<Rightarrow>
               let chain = cdr # tl_chain in
               if \<not> cdr_last cdr < length chain then None
               else if fn_table (chain ! cdr_last cdr) = finalized_state_fn_table
               then Some (- 1, eng)
               else
                 (case cdr_object_create_and_append E (global_cdr_sequence eng) chain 0 of
                    None \<Rightarrow> None
                  | Some (chain1, new_pos, seq') \<Rightarrow>
                      let cdr = chain1 ! 0;
                          cdr_obj = chain1 ! cdr_last (chain ! 0);
                          new_cdr = chain1 ! new_pos;
                          new_cdr = new_cdr\<lparr>fn_table := fn_table cdr_obj,
                                            cdr_bridge := cdr_bridge cdr,
                                            cdr_flags := cdr_flags cdr\<rparr>;
                          new_cdr =
                            (if snapshot (party_b cdr_obj) \<noteq> None
                             then new_cdr\<lparr>party_b := (party_b new_cdr)
                                    \<lparr>snapshot := snapshot (party_b cdr_obj),
                                     userfield := userfield (party_b cdr_obj),
                                     flags := flags (party_b cdr_obj),
                                     variables :=
                                       (if ast_test_flag options AST_CDR_FLAG_KEEP_VARS
                                        then fst (copy_variables (variables (party_b new_cdr))
                                                    (variables (party_b cdr_obj)))
                                        else variables (party_b new_cdr))\<rparr>\<rparr>
                             else new_cdr);
                          new_cdr = new_cdr\<lparr>cdr_start := cdr_start cdr_obj,
                                            cdr_answer := cdr_answer cdr_obj\<rparr>
                      in
                      (case (if ast_test_flag options AST_CDR_FLAG_SET_ANSWER
                             then (case snapshot (party_a new_cdr) of
                                     None \<Rightarrow> None
                                   | Some na \<Rightarrow>
                                       Some (if chan_state na = AST_STATE_UP
                                             then new_cdr\<lparr>cdr_answer := tvnow E\<rparr>
                                             else new_cdr))
                             else Some new_cdr) of
                         None \<Rightarrow> None
                       | Some new_cdr \<Rightarrow>
                           let new_cdr =
                                 (if ast_test_flag options AST_CDR_FLAG_RESET
                                  then new_cdr\<lparr>cdr_answer := tvnow E, cdr_start := tvnow E\<rparr>
                                  else new_cdr);
                               new_cdr =
                                 (if \<not> ast_test_flag options AST_CDR_FLAG_KEEP_VARS
                                  then new_cdr\<lparr>party_a := (party_a new_cdr)
                                         \<lparr>variables :=
                                            free_variables (variables (party_a new_cdr))\<rparr>\<rparr>
                                  else new_cdr)
                           in
                           (case (if ast_test_flag options AST_CDR_FLAG_FINALIZE
                                  then fork_finalize E (take new_pos chain1)
                                  else Some (take new_pos chain1)) of
                              None \<Rightarrow> None
                            | Some earlier \<Rightarrow>
                                Some (0,
                                  eng\<lparr>active_cdrs_by_channel :=
                                        (active_cdrs_by_channel eng)[k := earlier @ [new_cdr]],
                                      global_cdr_sequence := seq'\<rparr>))))))"

section \<open>Concrete inputs\<close>

text \<open>
  Channels, parties, records and an environment to evaluate the functions on. The
  environment has every optional setting off, the Q.850 cause codes, and the clock at
  100 s.
\<close>

definition example_channel ::
  "string \<Rightarrow> ast_channel_flag set \<Rightarrow> timeval \<Rightarrow> int \<Rightarrow> ast_channel_snapshot" where
  "example_channel nm fl created cause =
     \<lparr>chan_name = nm, chan_uniqueid = nm, chan_linkedid = ''call-1'',
      chan_accountcode = [], chan_caller_name = [], chan_caller_number = [],
      chan_caller_dnid = [], chan_caller_subaddr = [], chan_dialed_subaddr = [],
      chan_exten = ''100'', chan_context = ''default'', chan_priority = 1,
      chan_appl = ''Dial'', chan_data = [], chan_state = AST_STATE_NOT_UP,
      chan_amaflags = 0, chan_hangupcause = cause, chan_creationtime = created,
      chan_flags = fl\<rparr>"

definition example_party ::
  "ast_channel_snapshot option \<Rightarrow> ast_cdr_options set \<Rightarrow> varshead \<Rightarrow> cdr_object_snapshot" where
  "example_party snap fl vars =
     \<lparr>snapshot = snap, userfield = [], flags = fl, variables = vars\<rparr>"

definition example_cdr ::
  "cdr_object_snapshot \<Rightarrow> cdr_object_snapshot \<Rightarrow> cdr_object_fn_table \<Rightarrow> cdr_object" where
  "example_cdr a b tbl =
     \<lparr>party_a = a, party_b = b, fn_table = tbl, disposition = AST_CDR_NULL,
      cdr_start = \<lparr>tv_sec = 10, tv_usec = 0\<rparr>, cdr_answer = tv_zero, cdr_end = tv_zero,
      cdr_sequence = 0, cdr_flags = {}, cdr_linkedid = ''call-1'',
      cdr_name = (case snapshot a of None \<Rightarrow> [] | Some s \<Rightarrow> chan_name s),
      cdr_bridge = [], cdr_appl = [], cdr_data = [], cdr_last = 0\<rparr>"

definition example_env :: cdr_env where
  "example_env =
     \<lparr>settings = {CDR_ENABLED},
      causes = \<lparr>AST_CAUSE_BUSY = 17, AST_CAUSE_CONGESTION = 34,
                AST_CAUSE_NO_ROUTE_DESTINATION = 3, AST_CAUSE_UNREGISTERED = 20,
                AST_CAUSE_NORMAL_CLEARING = 16, AST_CAUSE_NO_ANSWER = 19\<rparr>,
      tvnow = \<lparr>tv_sec = 100, tv_usec = 0\<rparr>\<rparr>"

definition no_party :: cdr_object_snapshot where
  "no_party = example_party None {} []"

definition example_zombie :: ast_channel_snapshot where
  \<comment> \<open>the channel SIP/A after its hangup, with no hangup cause recorded\<close>
  "example_zombie = example_channel ''SIP/A'' {AST_FLAG_ZOMBIE} \<lparr>tv_sec = 1, tv_usec = 0\<rparr> 0"

definition example_hungup :: cdr_object where
  \<comment> \<open>the record of SIP/A after the Party A update with \<open>example_zombie\<close>\<close>
  "example_hungup =
     (example_cdr
        (example_party (Some example_zombie) {}
           [(''calledsubaddr'', []), (''callingsubaddr'', []), (''dnid'', [])])
        no_party finalized_state_fn_table)\<lparr>cdr_appl := ''Dial''\<rparr>"

definition example_dp :: cdr_object where
  \<comment> \<open>SIP/A after its dial of SIP/B was answered\<close>
  "example_dp =
     (example_cdr
        (example_party (Some (example_channel ''SIP/A'' {} \<lparr>tv_sec = 1, tv_usec = 0\<rparr> 0)) {} [])
        (example_party
           (Some (example_channel ''SIP/B'' {AST_FLAG_OUTGOING} \<lparr>tv_sec = 2, tv_usec = 0\<rparr> 0))
           {} [])
        dialed_pending_state_fn_table)\<lparr>disposition := AST_CDR_ANSWERED\<rparr>"

definition example_dial :: cdr_object where
  \<comment> \<open>SIP/A while it dials SIP/B\<close>
  "example_dial =
     example_cdr
        (example_party (Some (example_channel ''SIP/A'' {} \<lparr>tv_sec = 1, tv_usec = 0\<rparr> 0)) {} [])
        (example_party
           (Some (example_channel ''SIP/B'' {AST_FLAG_OUTGOING} \<lparr>tv_sec = 2, tv_usec = 0\<rparr> 0))
           {} [])
        dial_state_fn_table"

definition example_vars_cdr :: cdr_object where
  \<comment> \<open>SIP/A bridged with SIP/B; on each party two variables were set, 1 before 2\<close>
  "example_vars_cdr =
     (example_cdr
        (example_party (Some (example_channel ''SIP/A'' {} \<lparr>tv_sec = 1, tv_usec = 0\<rparr> 0)) {}
           (set_variable (set_variable [] ''a1'' (Some ''1'')) ''a2'' (Some ''2'')))
        (example_party
           (Some (example_channel ''SIP/B'' {AST_FLAG_OUTGOING} \<lparr>tv_sec = 2, tv_usec = 0\<rparr> 0))
           {}
           (set_variable (set_variable [] ''b1'' (Some ''1'')) ''b2'' (Some ''2'')))
        bridge_state_fn_table)\<lparr>cdr_bridge := ''b1''\<rparr>"

definition example_chain :: "cdr_object list" where
  \<comment> \<open>a chain of two records in the Finalized state\<close>
  "example_chain =
     [(example_cdr
         (example_party (Some (example_channel ''SIP/A'' {} \<lparr>tv_sec = 1, tv_usec = 0\<rparr> 16)) {} [])
         no_party finalized_state_fn_table)\<lparr>cdr_last := 1\<rparr>,
      (example_cdr
         (example_party (Some (example_channel ''SIP/A'' {} \<lparr>tv_sec = 1, tv_usec = 0\<rparr> 16)) {} [])
         no_party finalized_state_fn_table)\<lparr>cdr_last := 1, cdr_sequence := 1\<rparr>]"

definition example_engine :: cdr_engine where
  "example_engine = \<lparr>active_cdrs_by_channel = [example_chain], global_cdr_sequence = 2\<rparr>"


definition example_bridged_engine :: cdr_engine where
  \<comment> \<open>SIP/A bridged with SIP/B in the bridge b1, no variables set\<close>
  "example_bridged_engine =
     \<lparr>active_cdrs_by_channel =
        [(example_cdr
            (example_party (Some (example_channel ''SIP/A'' {} \<lparr>tv_sec = 1, tv_usec = 0\<rparr> 0))
               {} [])
            (example_party
               (Some (example_channel ''SIP/B'' {AST_FLAG_OUTGOING}
                        \<lparr>tv_sec = 2, tv_usec = 0\<rparr> 0))
               {} [])
            bridge_state_fn_table)\<lparr>cdr_bridge := ''b1''\<rparr>] # [],
      global_cdr_sequence = 1\<rparr>"

definition example_two_chain :: "cdr_object list" where
  \<comment> \<open>the chain of \<open>example_bridged_engine\<close> after a fork with the option
     \<open>AST_CDR_FLAG_FINALIZE\<close>: the first record is in the Finalized state, the second
     is bridged with SIP/B; both \<open>last\<close> pointers designate the second\<close>
  "example_two_chain =
     [(example_cdr
         (example_party (Some (example_channel ''SIP/A'' {} \<lparr>tv_sec = 1, tv_usec = 0\<rparr> 0)) {} [])
         (example_party
            (Some (example_channel ''SIP/B'' {AST_FLAG_OUTGOING} \<lparr>tv_sec = 2, tv_usec = 0\<rparr> 0))
            {} [])
         finalized_state_fn_table)
       \<lparr>disposition := AST_CDR_FAILED, cdr_end := \<lparr>tv_sec = 100, tv_usec = 0\<rparr>,
        cdr_bridge := ''b1'', cdr_last := 1\<rparr>,
      (example_cdr
         (example_party (Some (example_channel ''SIP/A'' {} \<lparr>tv_sec = 1, tv_usec = 0\<rparr> 0)) {} [])
         (example_party
            (Some (example_channel ''SIP/B'' {AST_FLAG_OUTGOING} \<lparr>tv_sec = 2, tv_usec = 0\<rparr> 0))
            {} [])
         bridge_state_fn_table)\<lparr>cdr_last := 1, cdr_sequence := 1, cdr_bridge := ''b1''\<rparr>]"

definition example_stale_chain :: "cdr_object list" where
  \<comment> \<open>\<open>example_two_chain\<close> after SIP/C was paired with its second record and hung up:
     the \<open>last\<close> pointer of the first record still designates the second\<close>
  "example_stale_chain =
     [(example_cdr
         (example_party (Some (example_channel ''SIP/A'' {} \<lparr>tv_sec = 1, tv_usec = 0\<rparr> 0)) {} [])
         (example_party
            (Some (example_channel ''SIP/B'' {AST_FLAG_OUTGOING} \<lparr>tv_sec = 2, tv_usec = 0\<rparr> 0))
            {} [])
         finalized_state_fn_table)
       \<lparr>disposition := AST_CDR_FAILED, cdr_end := \<lparr>tv_sec = 100, tv_usec = 0\<rparr>,
        cdr_bridge := ''b1'', cdr_last := 1\<rparr>,
      (example_cdr
         (example_party (Some (example_channel ''SIP/A'' {} \<lparr>tv_sec = 1, tv_usec = 0\<rparr> 0)) {} [])
         (example_party
            (Some (example_channel ''SIP/B'' {AST_FLAG_OUTGOING} \<lparr>tv_sec = 2, tv_usec = 0\<rparr> 0))
            {} [])
         bridge_state_fn_table)\<lparr>cdr_last := 2, cdr_sequence := 1, cdr_bridge := ''b1''\<rparr>,
      (example_cdr
         (example_party (Some (example_channel ''SIP/A'' {} \<lparr>tv_sec = 1, tv_usec = 0\<rparr> 0)) {} [])
         (example_party
            (Some (example_channel ''SIP/C'' {AST_FLAG_ZOMBIE} \<lparr>tv_sec = 3, tv_usec = 0\<rparr> 16))
            {}
            [(''calledsubaddr'', []), (''callingsubaddr'', []), (''dnid'', [])])
         finalized_state_fn_table)
       \<lparr>cdr_last := 2, cdr_sequence := 2, cdr_bridge := ''b1'',
        cdr_start := \<lparr>tv_sec = 100, tv_usec = 0\<rparr>\<rparr>]"

lemmas example_defs = example_env_def example_cdr_def example_party_def example_channel_def
  no_party_def tv_zero_def

lemmas handler_defs = cdr_object_transition_state_def finalized_state_init_function_def
  single_state_init_function_def cdr_object_check_party_a_answer_def
  cdr_object_check_party_a_hangup_def cdr_object_swap_snapshot_def cdr_object_update_cid_def
  cdr_object_snapshot_copy_def set_variable_def ast_var_assign_def ast_var_name_def
  ast_var_value_def strcasecmp_eq_def ascii_tolower_def ast_test_flag_def ast_tvzero_def

section \<open>Finalizing: shared facts\<close>


lemma set_disposition_keeps:
  "party_a (cdr_object_set_disposition E c h) = party_a c"
  "party_b (cdr_object_set_disposition E c h) = party_b c"
  "fn_table (cdr_object_set_disposition E c h) = fn_table c"
  "cdr_start (cdr_object_set_disposition E c h) = cdr_start c"
  "cdr_answer (cdr_object_set_disposition E c h) = cdr_answer c"
  "cdr_end (cdr_object_set_disposition E c h) = cdr_end c"
  by (simp_all add: cdr_object_set_disposition_def)

lemma set_disposition_null_iff:
  "disposition (cdr_object_set_disposition E c h) = AST_CDR_NULL \<longleftrightarrow>
     disposition c = AST_CDR_NULL
     \<and> h \<notin> {AST_CAUSE_BUSY (causes E), AST_CAUSE_CONGESTION (causes E),
              AST_CAUSE_NO_ROUTE_DESTINATION (causes E), AST_CAUSE_UNREGISTERED (causes E),
              AST_CAUSE_NORMAL_CLEARING (causes E), AST_CAUSE_NO_ANSWER (causes E)}"
  by (simp add: cdr_object_set_disposition_def)

lemma finalize_keeps:
  assumes "cdr_object_finalize E c = Some c'"
  shows "party_a c' = party_a c" and "party_b c' = party_b c"
    and "fn_table c' = fn_table c" and "cdr_start c' = cdr_start c"
    and "cdr_answer c' = cdr_answer c"
  using assms unfolding cdr_object_finalize_def Let_def
  by (auto simp: set_disposition_keeps split: if_splits option.splits)

lemma finalize_end:
  "ast_tvzero (cdr_end c) \<Longrightarrow> cdr_object_finalize E c = Some c' \<Longrightarrow> cdr_end c' = tvnow E"
  unfolding cdr_object_finalize_def Let_def
  by (auto simp: set_disposition_keeps split: if_splits option.splits)

lemma finalize_disposition_kept:
  "disposition c \<noteq> AST_CDR_NULL \<Longrightarrow> cdr_object_finalize E c = Some c' \<Longrightarrow>
     disposition c' = disposition c"
  by (auto simp: cdr_object_finalize_def Let_def split: if_splits)

lemma finalize_answered:
  "ast_tvzero (cdr_end cdr) \<Longrightarrow> disposition cdr = AST_CDR_NULL
   \<Longrightarrow> \<not> ast_tvzero (cdr_answer cdr)
   \<Longrightarrow> cdr_object_finalize E cdr =
         Some (cdr\<lparr>cdr_end := tvnow E, disposition := AST_CDR_ANSWERED\<rparr>)"
  by (simp add: cdr_object_finalize_def Let_def)

lemma finalize_unanswered:
  "ast_tvzero (cdr_end cdr) \<Longrightarrow> disposition cdr = AST_CDR_NULL
   \<Longrightarrow> ast_tvzero (cdr_answer cdr) \<Longrightarrow> snapshot (party_a cdr) = Some a
   \<Longrightarrow> cdr_object_finalize E cdr =
        Some (if chan_hangupcause a \<noteq> 0
              then cdr_object_set_disposition E (cdr\<lparr>cdr_end := tvnow E\<rparr>)
                     (chan_hangupcause a)
              else (case snapshot (party_b cdr) of
                      None \<Rightarrow> cdr\<lparr>cdr_end := tvnow E, disposition := AST_CDR_FAILED\<rparr>
                    | Some b \<Rightarrow>
                        if chan_hangupcause b \<noteq> 0
                        then cdr_object_set_disposition E (cdr\<lparr>cdr_end := tvnow E\<rparr>)
                               (chan_hangupcause b)
                        else cdr\<lparr>cdr_end := tvnow E, disposition := AST_CDR_FAILED\<rparr>))"
  by (simp add: cdr_object_finalize_def Let_def split: option.splits)

lemma finalize_unanswered_no_party_a:
  "ast_tvzero (cdr_end cdr) \<Longrightarrow> disposition cdr = AST_CDR_NULL
   \<Longrightarrow> ast_tvzero (cdr_answer cdr) \<Longrightarrow> snapshot (party_a cdr) = None
   \<Longrightarrow> cdr_object_finalize E cdr = None"
  by (simp add: cdr_object_finalize_def Let_def)

section \<open>Party A selection: the Party A flag and the creation time\<close>




text \<open>
  C9. For two party snapshots of equal dialed-ness and equal Party A flag, the
  selection returns the one created earlier, comparing seconds and then microseconds,
  and the left one when neither is earlier; so with equal creation times each order of
  the arguments returns its left argument.
\<close>

theorem pick_party_a_creation_time:
  assumes "snapshot L = Some l" and "snapshot R = Some r"
    and "snapshot_is_dialed l = snapshot_is_dialed r"
    and "ast_test_flag (flags L) AST_CDR_FLAG_PARTY_A
           = ast_test_flag (flags R) AST_CDR_FLAG_PARTY_A"
  shows "cdr_object_pick_party_a L R =
           Some (if tv_sec (chan_creationtime r) < tv_sec (chan_creationtime l)
                    \<or> (tv_sec (chan_creationtime r) = tv_sec (chan_creationtime l)
                        \<and> tv_usec (chan_creationtime r) < tv_usec (chan_creationtime l))
                 then R else L)
         \<and> (chan_creationtime l = chan_creationtime r \<longrightarrow>
              cdr_object_pick_party_a L R = Some L \<and> cdr_object_pick_party_a R L = Some R)"
  using assms by (auto simp: cdr_object_pick_party_a_def)

theorem pick_party_a_creation_time_witness:
  "cdr_object_pick_party_a
     (example_party (Some (example_channel ''SIP/A'' {} \<lparr>tv_sec = 5, tv_usec = 7\<rparr> 0)) {} [])
     (example_party (Some (example_channel ''SIP/B'' {} \<lparr>tv_sec = 5, tv_usec = 3\<rparr> 0)) {} [])
   = Some (example_party
             (Some (example_channel ''SIP/B'' {} \<lparr>tv_sec = 5, tv_usec = 3\<rparr> 0)) {} [])
   \<and> cdr_object_pick_party_a
       (example_party (Some (example_channel ''SIP/A'' {} \<lparr>tv_sec = 5, tv_usec = 7\<rparr> 0)) {} [])
       (example_party (Some (example_channel ''SIP/B'' {} \<lparr>tv_sec = 5, tv_usec = 7\<rparr> 0)) {} [])
     = Some (example_party
               (Some (example_channel ''SIP/A'' {} \<lparr>tv_sec = 5, tv_usec = 7\<rparr> 0)) {} [])
   \<and> cdr_object_pick_party_a
       (example_party (Some (example_channel ''SIP/B'' {} \<lparr>tv_sec = 5, tv_usec = 7\<rparr> 0)) {} [])
       (example_party (Some (example_channel ''SIP/A'' {} \<lparr>tv_sec = 5, tv_usec = 7\<rparr> 0)) {} [])
     = Some (example_party
               (Some (example_channel ''SIP/B'' {} \<lparr>tv_sec = 5, tv_usec = 7\<rparr> 0)) {} [])"
  using
    pick_party_a_creation_time
      [of "example_party (Some (example_channel ''SIP/A'' {} \<lparr>tv_sec = 5, tv_usec = 7\<rparr> 0)) {} []"
          "example_channel ''SIP/A'' {} \<lparr>tv_sec = 5, tv_usec = 7\<rparr> 0"
          "example_party (Some (example_channel ''SIP/B'' {} \<lparr>tv_sec = 5, tv_usec = 3\<rparr> 0)) {} []"
          "example_channel ''SIP/B'' {} \<lparr>tv_sec = 5, tv_usec = 3\<rparr> 0"]
    pick_party_a_creation_time
      [of "example_party (Some (example_channel ''SIP/A'' {} \<lparr>tv_sec = 5, tv_usec = 7\<rparr> 0)) {} []"
          "example_channel ''SIP/A'' {} \<lparr>tv_sec = 5, tv_usec = 7\<rparr> 0"
          "example_party (Some (example_channel ''SIP/B'' {} \<lparr>tv_sec = 5, tv_usec = 7\<rparr> 0)) {} []"
          "example_channel ''SIP/B'' {} \<lparr>tv_sec = 5, tv_usec = 7\<rparr> 0"]
  by (simp add: example_party_def example_channel_def snapshot_is_dialed_def ast_test_flag_def)

section \<open>Billing seconds\<close>

text \<open>
  C5. The billing seconds of a record are 0 when its answer time is unset. Otherwise
  they are the whole seconds of \<open>end - answer\<close> (the milliseconds divided by 1000, as C
  divides), plus one when the setting \<open>CDR_INITIATED_SECONDS\<close> is on and the part
  below a second is at least 500 ms. So a positive value implies that the answer
  time is set.
\<close>

theorem billsec_value:
  "(ast_tvzero (cdr_answer cdr) \<longrightarrow> cdr_object_get_billsec E cdr = 0)
   \<and> (\<not> ast_tvzero (cdr_answer cdr) \<longrightarrow>
        cdr_object_get_billsec E cdr =
          ast_tvdiff_ms (cdr_end cdr) (cdr_answer cdr) sdiv 1000
          + (if ast_test_flag (settings E) CDR_INITIATED_SECONDS
                \<and> 500 \<le> ast_tvdiff_ms (cdr_end cdr) (cdr_answer cdr) smod 1000
             then 1 else 0))
   \<and> (0 < cdr_object_get_billsec E cdr \<longrightarrow> \<not> ast_tvzero (cdr_answer cdr))"
  by (simp add: cdr_object_get_billsec_def Let_def)

theorem billsec_value_witness:
  "ast_tvzero (cdr_answer (example_cdr no_party no_party single_state_fn_table))
   \<and> cdr_object_get_billsec example_env (example_cdr no_party no_party single_state_fn_table)
       = 0
   \<and> \<not> ast_tvzero (cdr_answer ((example_cdr no_party no_party single_state_fn_table)
          \<lparr>cdr_answer := \<lparr>tv_sec = 1, tv_usec = 0\<rparr>,
           cdr_end := \<lparr>tv_sec = 4, tv_usec = 600000\<rparr>\<rparr>))
   \<and> cdr_object_get_billsec (example_env\<lparr>settings := {CDR_INITIATED_SECONDS}\<rparr>)
         ((example_cdr no_party no_party single_state_fn_table)
          \<lparr>cdr_answer := \<lparr>tv_sec = 1, tv_usec = 0\<rparr>,
           cdr_end := \<lparr>tv_sec = 4, tv_usec = 600000\<rparr>\<rparr>) = 4
   \<and> cdr_object_get_billsec example_env
         ((example_cdr no_party no_party single_state_fn_table)
          \<lparr>cdr_answer := \<lparr>tv_sec = 1, tv_usec = 0\<rparr>,
           cdr_end := \<lparr>tv_sec = 4, tv_usec = 600000\<rparr>\<rparr>) = 3"
  using billsec_value [of "example_cdr no_party no_party single_state_fn_table" example_env]
    billsec_value [of "(example_cdr no_party no_party single_state_fn_table)
          \<lparr>cdr_answer := \<lparr>tv_sec = 1, tv_usec = 0\<rparr>,
           cdr_end := \<lparr>tv_sec = 4, tv_usec = 600000\<rparr>\<rparr>"
         "example_env\<lparr>settings := {CDR_INITIATED_SECONDS}\<rparr>"]
    billsec_value [of "(example_cdr no_party no_party single_state_fn_table)
          \<lparr>cdr_answer := \<lparr>tv_sec = 1, tv_usec = 0\<rparr>,
           cdr_end := \<lparr>tv_sec = 4, tv_usec = 600000\<rparr>\<rparr>"
         example_env]
  by (simp add: example_defs ast_tvzero_def ast_tvdiff_ms_def ast_test_flag_def
        signed_divide_int_def signed_modulo_int_def)

section \<open>The Finalized state\<close>







text \<open>
  A Party A update that carries the Zombie flag moves a live record to the Finalized
  state; with the setting \<open>CDR_END_BEFORE_H_EXTEN\<close> off, the init function of the state
  returns before \<open>cdr_object_finalize\<close>, and the record keeps an unset end time and the
  Null disposition.
\<close>

lemma zombie_update_leaves_end_unset:
  "base_process_party_a example_env
     (example_cdr
        (example_party (Some (example_channel ''SIP/A'' {} \<lparr>tv_sec = 1, tv_usec = 0\<rparr> 0)) {} [])
        no_party single_state_fn_table)
     example_zombie
   = Some (0, example_hungup)"
  by (simp add: base_process_party_a_def handler_defs strncasecmp_eq_def example_hungup_def
        example_zombie_def example_defs Let_def)




section \<open>The disposition after finalizing\<close>

text \<open>
  C4, as stated: after \<open>cdr_object_finalize\<close> has run on a record, for any hangup cause
  of Party A and with the answer time unset, the disposition is no longer Null. It
  fails for a cause outside the mapping: the \<open>default\<close> case of
  \<open>cdr_object_set_disposition\<close> leaves the disposition as it is. Here Party A hung up
  with cause 1 (unallocated number); the end time is set and the disposition stays
  Null.
\<close>

theorem finalize_unmapped_cause_counterexample:
  "cdr_object_finalize example_env
     (example_cdr
        (example_party (Some (example_channel ''SIP/A'' {} \<lparr>tv_sec = 1, tv_usec = 0\<rparr> 1)) {} [])
        no_party single_state_fn_table)
   = Some ((example_cdr
        (example_party (Some (example_channel ''SIP/A'' {} \<lparr>tv_sec = 1, tv_usec = 0\<rparr> 1)) {} [])
        no_party single_state_fn_table)\<lparr>cdr_end := \<lparr>tv_sec = 100, tv_usec = 0\<rparr>\<rparr>)
   \<and> disposition ((example_cdr
        (example_party (Some (example_channel ''SIP/A'' {} \<lparr>tv_sec = 1, tv_usec = 0\<rparr> 1)) {} [])
        no_party single_state_fn_table)\<lparr>cdr_end := \<lparr>tv_sec = 100, tv_usec = 0\<rparr>\<rparr>)
     = AST_CDR_NULL"
  by (simp add: cdr_object_finalize_def cdr_object_set_disposition_def ast_tvzero_def
        example_defs)

text \<open>
  C4, amended: when \<open>cdr_object_finalize\<close> runs on a record whose end time is unset, it
  sets the end time, and the disposition afterwards is Null exactly when it was Null
  before, the answer time is unset, and the deciding hangup cause (Party A's if not
  zero, else Party B's if there is a Party B) is not zero and is none of Busy,
  Congestion, NoRouteDestination, Unregistered, NormalClearing and NoAnswer. In every
  other case the disposition afterwards is not Null.
\<close>

theorem finalize_disposition_null_iff:
  assumes "ast_tvzero (cdr_end cdr)" and "cdr_object_finalize E cdr = Some cdr'"
  shows "cdr_end cdr' = tvnow E \<and>
     (disposition cdr' = AST_CDR_NULL \<longleftrightarrow>
       disposition cdr = AST_CDR_NULL \<and> ast_tvzero (cdr_answer cdr)
       \<and> (\<exists>a. snapshot (party_a cdr) = Some a
            \<and> (let h = (if chan_hangupcause a \<noteq> 0 then chan_hangupcause a
                         else (case snapshot (party_b cdr) of
                                 None \<Rightarrow> 0 | Some b \<Rightarrow> chan_hangupcause b))
               in h \<noteq> 0
                  \<and> h \<notin> {AST_CAUSE_BUSY (causes E), AST_CAUSE_CONGESTION (causes E),
                           AST_CAUSE_NO_ROUTE_DESTINATION (causes E),
                           AST_CAUSE_UNREGISTERED (causes E),
                           AST_CAUSE_NORMAL_CLEARING (causes E),
                           AST_CAUSE_NO_ANSWER (causes E)})))"
    (is "_ \<and> (_ \<longleftrightarrow> ?rhs)")
proof
  show "cdr_end cdr' = tvnow E" using assms by (rule finalize_end)
next
  show "disposition cdr' = AST_CDR_NULL \<longleftrightarrow> ?rhs"
  proof (cases "disposition cdr = AST_CDR_NULL")
    case False
    with assms(2) have "disposition cdr' = disposition cdr"
      by (simp add: finalize_disposition_kept)
    with False show ?thesis by simp
  next
    case null: True
    show ?thesis
    proof (cases "ast_tvzero (cdr_answer cdr)")
      case False
      from finalize_answered[OF assms(1) null False, of E] assms(2)
      have "disposition cdr' = AST_CDR_ANSWERED" by auto
      with False show ?thesis by simp
    next
      case True
      show ?thesis
      proof (cases "snapshot (party_a cdr)")
        case None
        from finalize_unanswered_no_party_a[OF assms(1) null True None, of E] assms(2)
        show ?thesis by simp
      next
        case (Some a)
        from finalize_unanswered[OF assms(1) null True Some, of E] assms(2)
        have c': "cdr' = (if chan_hangupcause a \<noteq> 0
              then cdr_object_set_disposition E (cdr\<lparr>cdr_end := tvnow E\<rparr>)
                     (chan_hangupcause a)
              else (case snapshot (party_b cdr) of
                      None \<Rightarrow> cdr\<lparr>cdr_end := tvnow E, disposition := AST_CDR_FAILED\<rparr>
                    | Some b \<Rightarrow>
                        if chan_hangupcause b \<noteq> 0
                        then cdr_object_set_disposition E (cdr\<lparr>cdr_end := tvnow E\<rparr>)
                               (chan_hangupcause b)
                        else cdr\<lparr>cdr_end := tvnow E, disposition := AST_CDR_FAILED\<rparr>))"
          by simp
        show ?thesis
        proof (cases "chan_hangupcause a \<noteq> 0")
          case ha: True
          with c' have "disposition cdr' = AST_CDR_NULL \<longleftrightarrow>
             chan_hangupcause a \<notin> {AST_CAUSE_BUSY (causes E), AST_CAUSE_CONGESTION (causes E),
                           AST_CAUSE_NO_ROUTE_DESTINATION (causes E),
                           AST_CAUSE_UNREGISTERED (causes E),
                           AST_CAUSE_NORMAL_CLEARING (causes E),
                           AST_CAUSE_NO_ANSWER (causes E)}"
            using null by (simp add: set_disposition_null_iff)
          with ha null True Some show ?thesis by (simp add: Let_def)
        next
          case ha: False
          show ?thesis
          proof (cases "snapshot (party_b cdr)")
            case None
            with c' ha have "disposition cdr' = AST_CDR_FAILED" by simp
            with ha None Some show ?thesis by (simp add: Let_def)
          next
            case b: (Some b)
            show ?thesis
            proof (cases "chan_hangupcause b \<noteq> 0")
              case False
              with c' ha b have "disposition cdr' = AST_CDR_FAILED" by simp
              with ha b False Some show ?thesis by (simp add: Let_def)
            next
              case hb: True
              with c' ha b have "disposition cdr' = AST_CDR_NULL \<longleftrightarrow>
                 chan_hangupcause b \<notin> {AST_CAUSE_BUSY (causes E),
                           AST_CAUSE_CONGESTION (causes E),
                           AST_CAUSE_NO_ROUTE_DESTINATION (causes E),
                           AST_CAUSE_UNREGISTERED (causes E),
                           AST_CAUSE_NORMAL_CLEARING (causes E),
                           AST_CAUSE_NO_ANSWER (causes E)}"
                using null by (simp add: set_disposition_null_iff)
              with ha hb b null True Some show ?thesis by (simp add: Let_def)
            qed
          qed
        qed
      qed
    qed
  qed
qed

theorem finalize_disposition_null_iff_witness:
  "ast_tvzero (cdr_end (example_cdr
        (example_party (Some (example_channel ''SIP/A'' {} \<lparr>tv_sec = 1, tv_usec = 0\<rparr> 17)) {} [])
        no_party single_state_fn_table))
   \<and> cdr_object_finalize example_env
       (example_cdr
          (example_party (Some (example_channel ''SIP/A'' {} \<lparr>tv_sec = 1, tv_usec = 0\<rparr> 17)) {} [])
          no_party single_state_fn_table)
     = Some ((example_cdr
          (example_party (Some (example_channel ''SIP/A'' {} \<lparr>tv_sec = 1, tv_usec = 0\<rparr> 17)) {} [])
          no_party single_state_fn_table)
             \<lparr>cdr_end := \<lparr>tv_sec = 100, tv_usec = 0\<rparr>, disposition := AST_CDR_BUSY\<rparr>)
   \<and> disposition ((example_cdr
          (example_party (Some (example_channel ''SIP/A'' {} \<lparr>tv_sec = 1, tv_usec = 0\<rparr> 17)) {} [])
          no_party single_state_fn_table)
             \<lparr>cdr_end := \<lparr>tv_sec = 100, tv_usec = 0\<rparr>, disposition := AST_CDR_BUSY\<rparr>)
       \<noteq> AST_CDR_NULL"
proof -
  let ?c = "example_cdr
          (example_party (Some (example_channel ''SIP/A'' {} \<lparr>tv_sec = 1, tv_usec = 0\<rparr> 17)) {} [])
          no_party single_state_fn_table"
  have z: "ast_tvzero (cdr_end ?c)" by (simp add: example_defs ast_tvzero_def)
  have run: "cdr_object_finalize example_env ?c
               = Some (?c\<lparr>cdr_end := \<lparr>tv_sec = 100, tv_usec = 0\<rparr>, disposition := AST_CDR_BUSY\<rparr>)"
    by (simp add: cdr_object_finalize_def cdr_object_set_disposition_def ast_tvzero_def
          example_defs)
  from finalize_disposition_null_iff [OF z run] z run show ?thesis by simp
qed

section \<open>The end of a dial\<close>

lemma transition_finalized_non_null:
  assumes "disposition c \<noteq> AST_CDR_NULL"
    and "cdr_object_transition_state E c finalized_state_fn_table = Some c'"
  shows "disposition c' = disposition c \<and> fn_table c' = finalized_state_fn_table"
proof (cases "ast_test_flag (settings E) CDR_END_BEFORE_H_EXTEN")
  case False
  with assms(2) show ?thesis
    by (auto simp: cdr_object_transition_state_def finalized_state_init_function_def)
next
  case True
  with assms(2)
  have fin: "cdr_object_finalize E (c\<lparr>fn_table := finalized_state_fn_table\<rparr>) = Some c'"
    by (simp add: cdr_object_transition_state_def finalized_state_init_function_def)
  from assms(1) have "disposition (c\<lparr>fn_table := finalized_state_fn_table\<rparr>) \<noteq> AST_CDR_NULL"
    by simp
  from finalize_disposition_kept[OF this fin] finalize_keeps(3)[OF fin]
  show ?thesis by simp
qed

lemma dial_status_to_disposition_non_null:
  "dial_status_to_disposition E ds \<noteq> AST_CDR_NULL"
  by (simp add: dial_status_to_disposition_def)

lemma dial_end_set_and_move:
  assumes "(if dial_status_to_disposition E ds = AST_CDR_ANSWERED
            then cdr_object_transition_state E
                   (c\<lparr>disposition := dial_status_to_disposition E ds\<rparr>)
                   dialed_pending_state_fn_table
            else cdr_object_transition_state E
                   (c\<lparr>disposition := dial_status_to_disposition E ds\<rparr>)
                   finalized_state_fn_table)
           = Some c'"
  shows "disposition c' = dial_status_to_disposition E ds
     \<and> fn_table c' = (if dial_status_to_disposition E ds = AST_CDR_ANSWERED
                        then dialed_pending_state_fn_table else finalized_state_fn_table)"
proof (cases "dial_status_to_disposition E ds = AST_CDR_ANSWERED")
  case True
  with assms show ?thesis
    by (auto simp: cdr_object_transition_state_def)
next
  case False
  with assms
  have t: "cdr_object_transition_state E (c\<lparr>disposition := dial_status_to_disposition E ds\<rparr>)
             finalized_state_fn_table = Some c'"
    by simp
  have "disposition (c\<lparr>disposition := dial_status_to_disposition E ds\<rparr>) \<noteq> AST_CDR_NULL"
    by (simp add: dial_status_to_disposition_non_null)
  from transition_finalized_non_null[OF this t] False show ?thesis by simp
qed

text \<open>
  C6. When a record in the Dial state accepts a dial end (its handler returns 0), the
  disposition is the one the dial status maps to: ANSWER to Answered, BUSY to Busy,
  CANCEL or NOANSWER to NoAnswer, CONGESTION to Congestion when the setting
  \<open>CDR_CONGESTION\<close> is on and to Failed otherwise, FAILED or any other status to
  Failed. The record is then in the DialedPending state exactly when that disposition
  is Answered, and in the Finalized state otherwise.
\<close>

theorem dial_end_disposition:
  assumes "fn_table cdr = dial_state_fn_table"
    and "fn_table_process_dial_end (fn_table cdr) = Some handler"
    and "handler E cdr caller peer dial_status = Some (0, cdr')"
  shows "disposition cdr' =
           (if dial_status = ''ANSWER'' then AST_CDR_ANSWERED
            else if dial_status = ''BUSY'' then AST_CDR_BUSY
            else if dial_status = ''CANCEL'' \<or> dial_status = ''NOANSWER''
              then AST_CDR_NOANSWER
            else if dial_status = ''CONGESTION'' then
              (if ast_test_flag (settings E) CDR_CONGESTION then AST_CDR_CONGESTION
               else AST_CDR_FAILED)
            else AST_CDR_FAILED)
         \<and> (fn_table cdr' = dialed_pending_state_fn_table
              \<longleftrightarrow> disposition cdr' = AST_CDR_ANSWERED)
         \<and> (disposition cdr' \<noteq> AST_CDR_ANSWERED
              \<longrightarrow> fn_table cdr' = finalized_state_fn_table)"
proof -
  from assms(1,2) have h: "handler = dial_state_process_dial_end"
    by (simp add: fn_table_process_dial_end_def)
  from assms(3) h
  have run: "dial_state_process_dial_end E cdr caller peer dial_status = Some (0, cdr')"
    by simp
  have "\<exists>c. (if dial_status_to_disposition E dial_status = AST_CDR_ANSWERED
            then cdr_object_transition_state E
                   (c\<lparr>disposition := dial_status_to_disposition E dial_status\<rparr>)
                   dialed_pending_state_fn_table
            else cdr_object_transition_state E
                   (c\<lparr>disposition := dial_status_to_disposition E dial_status\<rparr>)
                   finalized_state_fn_table)
           = Some cdr'"
    using run unfolding dial_state_process_dial_end_def Let_def
    by (auto split: option.split_asm if_split_asm)
  then obtain c where "(if dial_status_to_disposition E dial_status = AST_CDR_ANSWERED
            then cdr_object_transition_state E
                   (c\<lparr>disposition := dial_status_to_disposition E dial_status\<rparr>)
                   dialed_pending_state_fn_table
            else cdr_object_transition_state E
                   (c\<lparr>disposition := dial_status_to_disposition E dial_status\<rparr>)
                   finalized_state_fn_table)
           = Some cdr'" ..
  from dial_end_set_and_move[OF this]
  have d: "disposition cdr' = dial_status_to_disposition E dial_status"
    and f: "fn_table cdr' = (if dial_status_to_disposition E dial_status = AST_CDR_ANSWERED
                        then dialed_pending_state_fn_table else finalized_state_fn_table)"
    by simp_all
  from d have "disposition cdr' =
           (if dial_status = ''ANSWER'' then AST_CDR_ANSWERED
            else if dial_status = ''BUSY'' then AST_CDR_BUSY
            else if dial_status = ''CANCEL'' \<or> dial_status = ''NOANSWER''
              then AST_CDR_NOANSWER
            else if dial_status = ''CONGESTION'' then
              (if ast_test_flag (settings E) CDR_CONGESTION then AST_CDR_CONGESTION
               else AST_CDR_FAILED)
            else AST_CDR_FAILED)"
    by (simp add: dial_status_to_disposition_def)
  with d f show ?thesis by simp
qed

theorem dial_end_disposition_witness:
  "fn_table example_dial = dial_state_fn_table
   \<and> fn_table_process_dial_end (fn_table example_dial) = Some dial_state_process_dial_end
   \<and> map_option (\<lambda>(res, c). (res, disposition c, fn_table c))
       (dial_state_process_dial_end example_env example_dial
          (Some (example_channel ''SIP/A'' {} \<lparr>tv_sec = 1, tv_usec = 0\<rparr> 0))
          (Some (example_channel ''SIP/B'' {AST_FLAG_OUTGOING} \<lparr>tv_sec = 2, tv_usec = 0\<rparr> 17))
          ''BUSY'')
     = Some (0, AST_CDR_BUSY, finalized_state_fn_table)"
proof -
  have st: "fn_table example_dial = dial_state_fn_table"
    by (simp add: example_dial_def example_cdr_def)
  have tbl: "fn_table_process_dial_end (fn_table example_dial)
               = Some dial_state_process_dial_end"
    by (simp add: st fn_table_process_dial_end_def)
  have "\<exists>c'. dial_state_process_dial_end example_env example_dial
          (Some (example_channel ''SIP/A'' {} \<lparr>tv_sec = 1, tv_usec = 0\<rparr> 0))
          (Some (example_channel ''SIP/B'' {AST_FLAG_OUTGOING} \<lparr>tv_sec = 2, tv_usec = 0\<rparr> 17))
          ''BUSY'' = Some (0, c')"
    by (simp add: dial_state_process_dial_end_def dial_status_to_disposition_def handler_defs
          example_dial_def example_defs Let_def)
  then obtain c' where run: "dial_state_process_dial_end example_env example_dial
          (Some (example_channel ''SIP/A'' {} \<lparr>tv_sec = 1, tv_usec = 0\<rparr> 0))
          (Some (example_channel ''SIP/B'' {AST_FLAG_OUTGOING} \<lparr>tv_sec = 2, tv_usec = 0\<rparr> 17))
          ''BUSY'' = Some (0, c')" ..
  from dial_end_disposition [OF st tbl run]
  have "disposition c' = AST_CDR_BUSY \<and> fn_table c' = finalized_state_fn_table" by simp
  with st tbl run show ?thesis by simp
qed

section \<open>A dial begin in the DialedPending state\<close>

text \<open>
  C1. A dial begin on a record in the DialedPending state should leave that record in
  the Finalized state and have a new record, appended in the Single state, take the
  dial: the new record adopts the parties and moves to the Dial state.
  \<open>dialed_pending_state_process_dial_begin\<close> does append a record, but then moves the
  old record to Single and hands the old record, not the new one, to the dial begin
  handler. For SIP/A, whose dial of SIP/B was answered and who now dials SIP/C: the
  old record (position 0) ends in the Dial state with SIP/C as Party B, and the new
  record (position 1) stays in the Single state without a Party B.
\<close>

theorem dialed_pending_dial_begin_old_record_dials:
  "map_option
     (\<lambda>(res, chain', seq').
        (res, map fn_table chain',
         map (\<lambda>c. map_option chan_name (snapshot (party_b c))) chain'))
     (dialed_pending_state_process_dial_begin example_env 7 [example_dp] 0
        (Some (example_channel ''SIP/A'' {} \<lparr>tv_sec = 1, tv_usec = 0\<rparr> 0))
        (Some (example_channel ''SIP/C'' {AST_FLAG_OUTGOING} \<lparr>tv_sec = 3, tv_usec = 0\<rparr> 0)))
   = Some (0, [dial_state_fn_table, single_state_fn_table], [Some ''SIP/C'', None])"
  by (simp add: dialed_pending_state_process_dial_begin_def cdr_object_create_and_append_def
        cdr_object_alloc_def single_state_process_dial_begin_def handler_defs
        example_dp_def example_defs Let_def)

section \<open>The variables of a public record\<close>

text \<open>
  Four calls of \<open>ast_cdr_setvar\<close> on the record of SIP/A bridged with SIP/B, setting
  a1 and then a2 on SIP/A and b1 and then b2 on SIP/B, give \<open>example_vars_cdr\<close>.
\<close>

lemma setvar_builds_example_vars_cdr:
  "(case ast_cdr_setvar example_bridged_engine ''SIP/A'' ''a1'' (Some ''1'') of
      None \<Rightarrow> None
    | Some (r1, e1) \<Rightarrow>
        (case ast_cdr_setvar e1 ''SIP/A'' ''a2'' (Some ''2'') of
           None \<Rightarrow> None
         | Some (r2, e2) \<Rightarrow>
             (case ast_cdr_setvar e2 ''SIP/B'' ''b1'' (Some ''1'') of
                None \<Rightarrow> None
              | Some (r3, e3) \<Rightarrow> ast_cdr_setvar e3 ''SIP/B'' ''b2'' (Some ''2''))))
   = Some (0, \<lparr>active_cdrs_by_channel = [example_vars_cdr] # [],
               global_cdr_sequence = 1\<rparr>)"
  by (simp add: ast_cdr_setvar_def cdr_readonly_vars_def
        cdr_object_select_all_by_channel_cb_def set_variable_def ast_var_assign_def
        ast_var_name_def strcasecmp_eq_def ascii_tolower_def example_bridged_engine_def
        example_vars_cdr_def example_defs)

text \<open>
  C7. The variables of the public record of a record should be Party A's variables
  followed by those of Party B's variables whose names are not yet present. For
  \<open>example_vars_cdr\<close>, where Party A has a1 and a2 and Party B has b1 and b2, the
  public record has a1, a2 and b2 only. Lines 1017-1018 pass the call
  \<open>ast_var_assign(...)\<close> to \<open>AST_LIST_INSERT_TAIL\<close>, which names its element twice: the
  entry linked into the list and the entry that becomes \<open>last\<close> are two entries, and
  what is inserted after the first of Party B's variables hangs off an entry that the
  list does not reach. Every variable of Party B after the first one inserted is
  lost.
\<close>

theorem public_record_loses_party_b_variables:
  "variables (party_a example_vars_cdr) = [(''a2'', ''2''), (''a1'', ''1'')]
   \<and> variables (party_b example_vars_cdr) = [(''b2'', ''2''), (''b1'', ''1'')]
   \<and> map_option (map pub_varshead)
       (cdr_object_create_public_records example_env [example_vars_cdr])
     = Some ([(''a1'', ''1''), (''a2'', ''2''), (''b2'', ''2'')] # [])"
  by (simp add: cdr_object_public_record_def AST_LIST_INSERT_TAIL_assign_def
        snapshot_is_dialed_def ast_test_flag_def example_vars_cdr_def example_defs
        set_variable_def ast_var_assign_def ast_var_name_def ast_var_value_def
        strcasecmp_eq_def ascii_tolower_def)

section \<open>Setting a read-only variable\<close>

text \<open>
  C8. For a name that equals, without regard to case, one of clid, src, dst, dcontext,
  channel, dstchannel, lastapp, lastdata, start, answer, end, duration, billsec,
  disposition, amaflags, accountcode, uniqueid, linkedid, userfield and sequence,
  \<open>ast_cdr_setvar\<close> returns -1 for every channel and value and leaves the index, and
  so the variable lists of every record, as they were.
\<close>

theorem setvar_readonly:
  assumes "ro \<in> {''clid'', ''src'', ''dst'', ''dcontext'', ''channel'', ''dstchannel'',
      ''lastapp'', ''lastdata'', ''start'', ''answer'', ''end'', ''duration'',
      ''billsec'', ''disposition'', ''amaflags'', ''accountcode'', ''uniqueid'',
      ''linkedid'', ''userfield'', ''sequence''}"
    and "strcasecmp_eq nm ro"
  shows "ast_cdr_setvar eng channel_name nm val = Some (- 1, eng)"
proof -
  from assms(1) have "ro \<in> set cdr_readonly_vars"
    unfolding cdr_readonly_vars_def by simp
  with assms(2) have "list_ex (\<lambda>ro. strcasecmp_eq nm ro) cdr_readonly_vars"
    unfolding list_ex_iff by blast
  then show ?thesis by (simp add: ast_cdr_setvar_def)
qed

theorem setvar_readonly_witness:
  "''billsec'' \<in> {''clid'', ''src'', ''dst'', ''dcontext'', ''channel'', ''dstchannel'',
      ''lastapp'', ''lastdata'', ''start'', ''answer'', ''end'', ''duration'',
      ''billsec'', ''disposition'', ''amaflags'', ''accountcode'', ''uniqueid'',
      ''linkedid'', ''userfield'', ''sequence''}
   \<and> strcasecmp_eq ''BillSec'' ''billsec''
   \<and> ast_cdr_setvar example_engine ''SIP/A'' ''BillSec'' (Some ''12'')
       = Some (- 1, example_engine)"
proof -
  have m: "''billsec'' \<in> {''clid'', ''src'', ''dst'', ''dcontext'', ''channel'',
      ''dstchannel'', ''lastapp'', ''lastdata'', ''start'', ''answer'', ''end'',
      ''duration'', ''billsec'', ''disposition'', ''amaflags'', ''accountcode'',
      ''uniqueid'', ''linkedid'', ''userfield'', ''sequence''}" by simp
  have c: "strcasecmp_eq ''BillSec'' ''billsec''"
    by (simp add: strcasecmp_eq_def ascii_tolower_def)
  from setvar_readonly [OF m c, of example_engine "''SIP/A''" "Some ''12''"] m c
  show ?thesis by simp
qed

section \<open>Forking a chain whose last record is Finalized\<close>

text \<open>
  C10. When the last record of the chain of a channel is in the Finalized state,
  \<open>ast_cdr_fork\<close> should return -1 and leave the chain as it is. \<open>ast_cdr_fork\<close> does not
  look at the last record of the chain but at the record that the \<open>last\<close> pointer
  of the head designates (lines 3067-3068), and \<open>cdr_object_create_and_append\<close>
  renews that pointer only in the records from the one it is called on (lines
  841-844).
  \<open>bridge_candidate_process\<close> calls it, through \<open>bridge_candidate_add_to_cdr\<close>, on the
  record of a candidate (line 2283), which need not be the head.

  SIP/A is bridged with SIP/B. A fork with the option \<open>AST_CDR_FLAG_FINALIZE\<close> moves
  the record to the Finalized state and appends a second record, bridged with SIP/B.
  SIP/C enters the bridge and is paired with the second record: a third record, with
  SIP/C as Party B, is appended from the second one, and the head keeps its pointer
  to the second. SIP/C hangs up, and the update of Party B moves the third record to
  the Finalized state. Now the last record of the chain is in the Finalized state,
  the \<open>last\<close> pointer of the head designates a record in the Bridged state, and
  \<open>ast_cdr_fork\<close> returns 0 and appends a fourth record.
\<close>

theorem fork_appends_after_finalized_last:
  "ast_cdr_fork example_env example_bridged_engine ''SIP/A'' {AST_CDR_FLAG_FINALIZE}
     = Some (0, \<lparr>active_cdrs_by_channel = [example_two_chain], global_cdr_sequence = 2\<rparr>)
   \<and> (case bridge_candidate_add_to_cdr example_env 2 example_two_chain 1
             (example_party
                (Some (example_channel ''SIP/C'' {} \<lparr>tv_sec = 3, tv_usec = 0\<rparr> 0)) {} []) of
        None \<Rightarrow> None
      | Some (paired, seq) \<Rightarrow>
          cdr_object_update_party_b example_env paired
            (example_channel ''SIP/C'' {AST_FLAG_ZOMBIE} \<lparr>tv_sec = 3, tv_usec = 0\<rparr> 16))
     = Some example_stale_chain
   \<and> fn_table (last example_stale_chain) = finalized_state_fn_table
   \<and> fn_table (example_stale_chain ! cdr_last (hd example_stale_chain))
       = bridge_state_fn_table
   \<and> map_option
       (\<lambda>(r, eng). (r, map (map fn_table) (active_cdrs_by_channel eng)))
       (ast_cdr_fork example_env
          \<lparr>active_cdrs_by_channel = [example_stale_chain], global_cdr_sequence = 3\<rparr>
          ''SIP/A'' {})
     = Some (0, [finalized_state_fn_table, bridge_state_fn_table, finalized_state_fn_table,
                 bridge_state_fn_table] # [])"
  by (simp add: bridge_candidate_add_to_cdr_def cdr_object_create_and_append_def
        cdr_object_alloc_def update_party_b_record_def fn_table_process_party_b_def
        bridge_state_process_party_b_def ast_cdr_fork_def free_variables_def
        cdr_object_finalize_def cdr_object_set_disposition_def handler_defs
        example_bridged_engine_def example_two_chain_def example_stale_chain_def
        example_defs Let_def)

end
